theory Spec2Isabelle
  imports Complex_Main "HOL-Library.Sublist"
begin

unbundle bit_operations_syntax

section \<open>Python text primitives used by \<^verbatim>\<open>generate_images.py\<close>\<close>

text \<open>
  A Python \<^verbatim>\<open>str\<close> is modelled as a \<^typ>\<open>string\<close> whose characters are the code
  points 0..255 (the Latin-1 range); \<^verbatim>\<open>str.isspace\<close>, \<^verbatim>\<open>str.lower\<close> and
  \<^verbatim>\<open>str.strip\<close> are given on that range as Python defines them there. Text with
  code points above 255 is outside the model.
\<close>

definition py_isspace :: "char \<Rightarrow> bool" where
  "py_isspace c =
     (let n = (of_char c :: nat)
      in (9 \<le> n \<and> n \<le> 13) \<or> (28 \<le> n \<and> n \<le> 32) \<or> n = 133 \<or> n = 160)"

definition py_lower_char :: "char \<Rightarrow> char" where
  "py_lower_char c =
     (let n = (of_char c :: nat)
      in if (65 \<le> n \<and> n \<le> 90) \<or> (192 \<le> n \<and> n \<le> 222 \<and> n \<noteq> 215)
         then char_of (n + 32) else c)"

definition py_lower :: "string \<Rightarrow> string" where
  "py_lower s = map py_lower_char s"

definition py_strip :: "string \<Rightarrow> string" where
  "py_strip s = rev (dropWhile py_isspace (rev (dropWhile py_isspace s)))"

text \<open>\<^verbatim>\<open>s.split(",")\<close>: the pieces between the separators, never an empty list.\<close>

fun py_split :: "char \<Rightarrow> string \<Rightarrow> string list" where
  "py_split sep [] = [[]]"
| "py_split sep (c # cs) =
     (if c = sep then [] # py_split sep cs
      else (case py_split sep cs of
              [] \<Rightarrow> [[c]]
            | p # ps \<Rightarrow> (c # p) # ps))"

text \<open>Truth value of an \<^verbatim>\<open>Optional[str]\<close>: \<^verbatim>\<open>None\<close> and \<^verbatim>\<open>""\<close> are falsy.\<close>

definition truthy :: "string option \<Rightarrow> bool" where
  "truthy v = (case v of None \<Rightarrow> False | Some s \<Rightarrow> s \<noteq> [])"

section \<open>The environment\<close>

text \<open>\<^verbatim>\<open>os.getenv(k)\<close> is \<open>env k\<close>: \<open>None\<close> when the variable is unset.\<close>

type_synonym environ = "string \<rightharpoonup> string"

text \<open>
  Lines 141--144 of \<^verbatim>\<open>main\<close>:
  \<^verbatim>\<open>not not raw_ignore_forked_repos and raw_ignore_forked_repos.strip().lower() != "false"\<close>.
  The right operand of \<^verbatim>\<open>and\<close> is evaluated only when the left one is true.
\<close>

definition ignore_forked_repos_of :: "string option \<Rightarrow> bool" where
  "ignore_forked_repos_of raw_ignore_forked_repos =
     (if \<not> \<not> truthy raw_ignore_forked_repos
      then (case raw_ignore_forked_repos of
              None \<Rightarrow> False
            | Some raw \<Rightarrow> py_lower (py_strip raw) \<noteq> ''false'')
      else False)"

text \<open>
  \<^verbatim>\<open>{x.strip() for x in v.split(",")} if v else None\<close> (lines 133--135 and 137--139).
\<close>

definition excluded_set :: "string option \<Rightarrow> string set option" where
  "excluded_set v =
     (if truthy v
      then (case v of None \<Rightarrow> None
            | Some s \<Rightarrow> Some (set (map py_strip (py_split CHR '','' s))))
      else None)"

text \<open>
  The specification's wording of the flag: the value is ``case-insensitively equal to
  the literal text false'' when it is one of the letter-case spellings of that word.
\<close>

definition spelling_of_false :: "string \<Rightarrow> bool" where
  "spelling_of_false v =
     list_all2 (\<lambda>c (l, u). c = l \<or> c = u) v
       [(CHR ''f'', CHR ''F''), (CHR ''a'', CHR ''A''), (CHR ''l'', CHR ''L''),
        (CHR ''s'', CHR ''S''), (CHR ''e'', CHR ''E'')]"

section \<open>The world \<^verbatim>\<open>main\<close> runs in\<close>

text \<open>
  Every exception that this module raises or lets through is a value. The string of
  the filesystem errors is the path concerned; the string of \<open>Exception\<close> and
  \<open>RuntimeError\<close> is the message. \<open>TemplateError\<close> stands for what the replacement
  parser of \<^verbatim>\<open>re.sub\<close> raises (\<^verbatim>\<open>re.error\<close>, or \<^verbatim>\<open>IndexError\<close> for an unknown group
  name).
\<close>

datatype error =
    FileNotFoundError string
  | FileExistsError string
  | IsADirectoryError string
  | PermissionError string
  | Exception string
  | RuntimeError string
  | TypeError
  | TemplateError

text \<open>
  The arguments \<^verbatim>\<open>Stats(user, access_token, session, exclude_repos=..., exclude_langs=...,
  ignore_forked_repos=...)\<close> is constructed with (the session is counted in the world).
\<close>

record stats_args =
  stats_user :: string
  stats_access_token :: string
  stats_exclude_repos :: "string set option"
  stats_exclude_langs :: "string set option"
  stats_ignore_forked_repos :: bool

text \<open>
  A path names a regular file (its text and permission bits) or a directory (its
  permission bits). The process owns the nodes it sees and is not the superuser, so
  \<^verbatim>\<open>os.access\<close> reads the owner bits.
\<close>

datatype node = File string nat | Dir nat

record world =
  nodes :: "string \<rightharpoonup> node"
  umask :: nat
  stdout :: "string list"
  sessions_opened :: nat
  providers :: "stats_args list"

type_synonym 'a io = "world \<Rightarrow> (error + 'a) \<times> world"

text \<open>Sequencing: an exception ends the run of statements, the world stays as it was left.\<close>

definition bind_io :: "'a io \<Rightarrow> ('a \<Rightarrow> 'b io) \<Rightarrow> 'b io" where
  "bind_io m f w = (case m w of (Inl e, w1) \<Rightarrow> (Inl e, w1) | (Inr x, w1) \<Rightarrow> f x w1)"

definition print :: "string \<Rightarrow> unit io" where
  "print msg w = (Inr (), w\<lparr>stdout := stdout w @ [msg]\<rparr>)"

fun node_mode :: "node \<Rightarrow> nat" where
  "node_mode (File text m) = m"
| "node_mode (Dir m) = m"

definition os_path_isdir :: "world \<Rightarrow> string \<Rightarrow> bool" where
  "os_path_isdir w p = (case nodes w p of Some (Dir m) \<Rightarrow> True | _ \<Rightarrow> False)"

definition os_path_isfile :: "world \<Rightarrow> string \<Rightarrow> bool" where
  "os_path_isfile w p = (case nodes w p of Some (File text m) \<Rightarrow> True | _ \<Rightarrow> False)"

text \<open>\<^verbatim>\<open>os.R_OK\<close> is the owner bit 0o400 = 256, \<^verbatim>\<open>os.W_OK\<close> the owner bit 0o200 = 128.\<close>

definition R_OK :: nat where "R_OK = 256"
definition W_OK :: nat where "W_OK = 128"

definition os_access :: "world \<Rightarrow> string \<Rightarrow> nat \<Rightarrow> bool" where
  "os_access w p flag =
     (case nodes w p of None \<Rightarrow> False | Some n \<Rightarrow> (node_mode n div flag) mod 2 = 1)"

text \<open>
  \<^verbatim>\<open>os.mkdir(p)\<close>: the default mode 0o777 = 511 with the bits of the umask cleared;
  \<^verbatim>\<open>FileExistsError\<close> when the path is already there.
\<close>

definition os_mkdir :: "string \<Rightarrow> unit io" where
  "os_mkdir p w =
     (case nodes w p of
        Some n \<Rightarrow> (Inl (FileExistsError p), w)
      | None \<Rightarrow> (Inr (), w\<lparr>nodes := (nodes w)(p \<mapsto> Dir (511 - (umask w AND 511)))\<rparr>))"

definition os_chmod :: "string \<Rightarrow> nat \<Rightarrow> unit io" where
  "os_chmod p m w =
     (case nodes w p of
        None \<Rightarrow> (Inl (FileNotFoundError p), w)
      | Some (Dir m0) \<Rightarrow> (Inr (), w\<lparr>nodes := (nodes w)(p \<mapsto> Dir m)\<rparr>)
      | Some (File text m0) \<Rightarrow> (Inr (), w\<lparr>nodes := (nodes w)(p \<mapsto> File text m)\<rparr>))"

text \<open>\<^verbatim>\<open>with open(p, "r") as f: f.read()\<close>.\<close>

definition read_text :: "string \<Rightarrow> world \<Rightarrow> error + string" where
  "read_text p w =
     (case nodes w p of
        None \<Rightarrow> Inl (FileNotFoundError p)
      | Some (Dir m) \<Rightarrow> Inl (IsADirectoryError p)
      | Some (File text m) \<Rightarrow>
          if os_access w p R_OK then Inr text else Inl (PermissionError p))"

text \<open>
  \<^verbatim>\<open>with open(p, "w") as f: f.write(text)\<close> for a file \<open>p\<close> directly inside the
  directory \<open>d\<close>: an existing file is truncated and keeps its mode, a new one gets
  0o666 = 438 with the bits of the umask cleared.
\<close>

definition write_text :: "string \<Rightarrow> string \<Rightarrow> string \<Rightarrow> unit io" where
  "write_text d p text w =
     (if \<not> os_path_isdir w d then (Inl (FileNotFoundError p), w)
      else (case nodes w p of
              Some (Dir m) \<Rightarrow> (Inl (IsADirectoryError p), w)
            | Some (File old m) \<Rightarrow>
                if os_access w p W_OK
                then (Inr (), w\<lparr>nodes := (nodes w)(p \<mapsto> File text m)\<rparr>)
                else (Inl (PermissionError p), w)
            | None \<Rightarrow>
                if os_access w d W_OK
                then (Inr (), w\<lparr>nodes := (nodes w)(p \<mapsto> File text (438 - (umask w AND 438)))\<rparr>)
                else (Inl (PermissionError p), w)))"

section \<open>Helper functions of the module\<close>

text \<open>\<^verbatim>\<open>generate_output_folder\<close> (lines 13--22); 0o777 is 511.\<close>

definition generate_output_folder :: "unit io" where
  "generate_output_folder w =
     (if \<not> os_path_isdir w ''generated''
      then bind_io (os_mkdir ''generated'')
             (\<lambda>_. bind_io (os_chmod ''generated'' 511)
                (\<lambda>_. print ''Created directory: generated with permissions 777'')) w
      else print ''Directory already exists: generated'' w)"

text \<open>\<^verbatim>\<open>check_permissions\<close> (lines 24--46): validation only, the world is not changed.\<close>

definition check_permissions :: "world \<Rightarrow> error + unit" where
  "check_permissions w =
     (if \<not> os_path_isdir w ''templates'' then Inl (FileNotFoundError ''templates'')
      else if \<not> os_path_isfile w ''templates/overview.svg''
        then Inl (FileNotFoundError ''templates/overview.svg'')
      else if \<not> os_path_isfile w ''templates/languages.svg''
        then Inl (FileNotFoundError ''templates/languages.svg'')
      else if \<not> os_access w ''templates/overview.svg'' R_OK
        then Inl (PermissionError ''templates/overview.svg'')
      else if \<not> os_access w ''templates/languages.svg'' R_OK
        then Inl (PermissionError ''templates/languages.svg'')
      else if \<not> os_access w ''generated'' W_OK
        then Inl (PermissionError ''generated'')
      else Inr ())"

section \<open>\<^verbatim>\<open>main\<close>\<close>

text \<open>
  \<^verbatim>\<open>main\<close> (lines 119--154). \<^verbatim>\<open>not access_token\<close> holds for \<^verbatim>\<open>None\<close> and for the empty
  string; \<^verbatim>\<open>user is None\<close> only for an unset variable. Entering
  \<^verbatim>\<open>aiohttp.ClientSession()\<close> counts a session and \<^verbatim>\<open>Stats(...)\<close> records its
  arguments. What runs inside the session,
  \<^verbatim>\<open>asyncio.gather(generate_languages(s), generate_overview(s))\<close>, interleaves two
  coroutines over the absent \<^verbatim>\<open>Stats\<close> class and is the parameter \<open>gather\<close>.
\<close>

definition main :: "environ \<Rightarrow> (stats_args \<Rightarrow> unit io) \<Rightarrow> unit io" where
  "main env gather =
     bind_io generate_output_folder (\<lambda>_.
     bind_io (\<lambda>w. (check_permissions w, w)) (\<lambda>_ w.
       let access_token = env ''ACCESS_TOKEN'' in
       (case access_token of
          None \<Rightarrow> (Inl (Exception ''A personal access token is required to proceed!''), w)
        | Some token \<Rightarrow>
            if token = []
            then (Inl (Exception ''A personal access token is required to proceed!''), w)
            else (case env ''GITHUB_ACTOR'' of
                    None \<Rightarrow>
                      (Inl (RuntimeError ''Environment variable GITHUB_ACTOR must be set.''), w)
                  | Some user \<Rightarrow>
                      let excluded_repos = excluded_set (env ''EXCLUDED'');
                          excluded_langs = excluded_set (env ''EXCLUDED_LANGS'');
                          ignore_forked_repos =
                            ignore_forked_repos_of (env ''EXCLUDE_FORKED_REPOS'');
                          s = \<lparr>stats_user = user, stats_access_token = token,
                               stats_exclude_repos = excluded_repos,
                               stats_exclude_langs = excluded_langs,
                               stats_ignore_forked_repos = ignore_forked_repos\<rparr>
                      in gather s
                           (w\<lparr>sessions_opened := sessions_opened w + 1,
                              providers := providers w @ [s]\<rparr>)))))"

section \<open>Formatting numbers\<close>

text \<open>\<^verbatim>\<open>str(n)\<close> for a natural number: its decimal digits.\<close>

definition digit_char :: "nat \<Rightarrow> char" where
  "digit_char d = ''0123456789'' ! d"

fun py_str_nat :: "nat \<Rightarrow> string" where
  "py_str_nat n =
     (if n < 10 then [digit_char n] else py_str_nat (n div 10) @ [digit_char (n mod 10)])"

declare py_str_nat.simps [simp del]

text \<open>
  The format specification \<^verbatim>\<open>,\<close> of an \<^verbatim>\<open>int\<close>, as in \<^verbatim>\<open>f"{n:,}"\<close>: a comma before
  every group of three digits counted from the right. \<open>group_thousands\<close> works on the
  digits in reverse.
\<close>

fun group_thousands :: "string \<Rightarrow> string" where
  "group_thousands (a # b # c # d # ds) = a # b # c # CHR '','' # group_thousands (d # ds)"
| "group_thousands ds = ds"

definition format_thousands :: "int \<Rightarrow> string" where
  "format_thousands n =
     (if n < 0 then ''-'' else []) @ rev (group_thousands (rev (py_str_nat (nat \<bar>n\<bar>))))"

text \<open>
  The format specifications \<^verbatim>\<open>0.3f\<close> and \<^verbatim>\<open>0.2f\<close>: fixed-point notation with the given
  number of decimals, the exact value rounded half to even. A finite \<^verbatim>\<open>float\<close> (and
  the \<^verbatim>\<open>int\<close> 0 of \<^verbatim>\<open>data.get("prop", 0)\<close>) is the rational number it denotes;
  infinities, NaN and the negative zero are outside the model.
\<close>

definition round_half_even :: "rat \<Rightarrow> int" where
  "round_half_even x =
     (let f = \<lfloor>x\<rfloor>; d = x - of_int f
      in if d < 1 / 2 then f else if 1 / 2 < d then f + 1 else if even f then f else f + 1)"

definition format_fixed :: "nat \<Rightarrow> rat \<Rightarrow> string" where
  "format_fixed prec x =
     (let n = nat (round_half_even (\<bar>x\<bar> * 10 ^ prec));
          frac = py_str_nat (n mod 10 ^ prec)
      in (if x < 0 then ''-'' else []) @ py_str_nat (n div 10 ^ prec) @
         (if prec = 0 then []
          else ''.'' @ replicate (prec - length frac) CHR ''0'' @ frac))"

section \<open>\<^verbatim>\<open>re.sub\<close> with a literal pattern\<close>

text \<open>
  Every pattern of this module is a placeholder such as \<^verbatim>\<open>{{ name }}\<close>. A brace that
  does not open a repetition count is an ordinary character for \<^verbatim>\<open>re\<close>, so each
  pattern matches its own text and nothing else. \<open>replace_all pat rep s\<close> replaces the
  non-overlapping occurrences of \<open>pat\<close> in \<open>s\<close>, leftmost first, as \<^verbatim>\<open>re.sub\<close> does
  with \<^verbatim>\<open>count=0\<close>.
\<close>

fun replace_all :: "string \<Rightarrow> string \<Rightarrow> string \<Rightarrow> string" where
  "replace_all pat rep [] = (if pat = [] then rep else [])"
| "replace_all pat rep (c # cs) =
     (if pat = [] then rep @ c # replace_all pat rep cs
      else if prefix pat (c # cs)
        then rep @ replace_all pat rep (drop (length pat) (c # cs))
      else c # replace_all pat rep cs)"

text \<open>
  The replacement argument of \<^verbatim>\<open>re.sub\<close> is a template: a backslash starts an escape
  (\<^verbatim>\<open>parse_template\<close> of \<^verbatim>\<open>re\<close>, Python 3.12). The pattern has no group, so the only
  group reference that does not fail is group 0, the matched text \<open>m\<close>.
\<close>

definition is_digit :: "char \<Rightarrow> bool" where
  "is_digit c = (c \<in> set ''0123456789'')"

definition is_octdigit :: "char \<Rightarrow> bool" where
  "is_octdigit c = (c \<in> set ''01234567'')"

definition digit_val :: "char \<Rightarrow> nat" where
  "digit_val c = of_char c - 48"

definition is_ascii_letter :: "char \<Rightarrow> bool" where
  "is_ascii_letter c =
     (let n = (of_char c :: nat) in (65 \<le> n \<and> n \<le> 90) \<or> (97 \<le> n \<and> n \<le> 122))"

text \<open>The escapes \<^verbatim>\<open>\a \b \f \n \r \t \v \\\<close> of a template.\<close>

definition escape_char :: "char \<Rightarrow> char option" where
  "escape_char e =
     (if e = CHR ''a'' then Some (CHR 0x07)
      else if e = CHR ''b'' then Some (CHR 0x08)
      else if e = CHR ''f'' then Some (CHR 0x0C)
      else if e = CHR ''n'' then Some (CHR 0x0A)
      else if e = CHR ''r'' then Some (CHR 0x0D)
      else if e = CHR ''t'' then Some (CHR 0x09)
      else if e = CHR ''v'' then Some (CHR 0x0B)
      else if e = CHR 0x5C then Some (CHR 0x5C)
      else None)"

definition cons_ok :: "char \<Rightarrow> error + string \<Rightarrow> error + string" where
  "cons_ok c r = (case r of Inl e \<Rightarrow> Inl e | Inr s \<Rightarrow> Inr (c # s))"

definition append_ok :: "string \<Rightarrow> error + string \<Rightarrow> error + string" where
  "append_ok p r = (case r of Inl e \<Rightarrow> Inl e | Inr s \<Rightarrow> Inr (p @ s))"

text \<open>\<^verbatim>\<open>\g<name>\<close>: the text after \<^verbatim>\<open>\g\<close>; only an index of value 0 names a group.\<close>

definition group_reference :: "string \<Rightarrow> string \<Rightarrow> error + string \<times> string" where
  "group_reference m rest =
     (case rest of
        [] \<Rightarrow> Inl TemplateError
      | lt # rest' \<Rightarrow>
          if lt \<noteq> CHR ''<'' then Inl TemplateError
          else (let name = takeWhile (\<lambda>x. x \<noteq> CHR ''>'') rest';
                    after = dropWhile (\<lambda>x. x \<noteq> CHR ''>'') rest'
                in if after = [] then Inl TemplateError
                   else if name \<noteq> [] \<and> list_all (\<lambda>d. d = CHR ''0'') name
                     then Inr (m, tl after)
                   else Inl TemplateError))"

text \<open>\<^verbatim>\<open>\0\<close> and up to two more octal digits: the character of that code.\<close>

definition octal_escape :: "string \<Rightarrow> string \<times> string" where
  "octal_escape rest =
     (case rest of
        [] \<Rightarrow> ([CHR 0x00], [])
      | d1 # rest1 \<Rightarrow>
          if is_octdigit d1 then
            (case rest1 of
               [] \<Rightarrow> ([char_of (digit_val d1)], [])
             | d2 # rest2 \<Rightarrow>
                 if is_octdigit d2 then ([char_of (8 * digit_val d1 + digit_val d2)], rest2)
                 else ([char_of (digit_val d1)], rest1))
          else ([CHR 0x00], rest))"

text \<open>
  \<^verbatim>\<open>\1\<close> to \<^verbatim>\<open>\9\<close>: three octal digits are a character code up to 0o377; anything
  else refers to a group the pattern does not have.
\<close>

definition numbered_reference :: "char \<Rightarrow> string \<Rightarrow> error + string \<times> string" where
  "numbered_reference e rest =
     (case rest of
        d2 # d3 # rest3 \<Rightarrow>
          if is_octdigit e \<and> is_octdigit d2 \<and> is_octdigit d3 then
            (if 64 * digit_val e + 8 * digit_val d2 + digit_val d3 > 255
             then Inl TemplateError
             else Inr ([char_of (64 * digit_val e + 8 * digit_val d2 + digit_val d3)], rest3))
          else Inl TemplateError
      | _ \<Rightarrow> Inl TemplateError)"

text \<open>
  What one backslash and the text \<open>cs\<close> after it expand to, and the text left over. A
  backslash at the end, an unknown escape of an ASCII letter and a bad group reference
  raise; a backslash before any other character stays, with that character.
\<close>

definition template_escape :: "string \<Rightarrow> string \<Rightarrow> error + string \<times> string" where
  "template_escape m cs =
     (case cs of
        [] \<Rightarrow> Inl TemplateError
      | e # rest \<Rightarrow>
          if e = CHR ''g'' then group_reference m rest
          else if e = CHR ''0'' then Inr (octal_escape rest)
          else if is_digit e then numbered_reference e rest
          else (case escape_char e of
                  Some x \<Rightarrow> Inr ([x], rest)
                | None \<Rightarrow>
                    if is_ascii_letter e then Inl TemplateError
                    else Inr ([CHR 0x5C, e], rest)))"

lemma length_after_group_name:
  "length (dropWhile P xs) - Suc 0 \<le> Suc (Suc (length xs))"
  using length_dropWhile_le [of P xs] by simp

lemma template_escape_shorter [termination_simp]:
  "template_escape m cs = Inr (out, rest) \<Longrightarrow> length rest \<le> length cs"
  by (auto simp: template_escape_def group_reference_def octal_escape_def
        numbered_reference_def Let_def length_after_group_name
        split: list.splits if_splits option.splits)

fun expand_template :: "string \<Rightarrow> string \<Rightarrow> error + string" where
  "expand_template m [] = Inr []"
| "expand_template m (c # cs) =
     (if c \<noteq> CHR 0x5C then cons_ok c (expand_template m cs)
      else (case template_escape m cs of
              Inl e \<Rightarrow> Inl e
            | Inr (out, rest) \<Rightarrow> append_ok out (expand_template m rest)))"

definition re_sub :: "string \<Rightarrow> string \<Rightarrow> string \<Rightarrow> error + string" where
  "re_sub pat repl s =
     (case expand_template pat repl of
        Inl e \<Rightarrow> Inl e
      | Inr rep \<Rightarrow> Inr (replace_all pat rep s))"

text \<open>Running one fallible step after another; the first exception ends the run.\<close>

definition bind_err :: "error + 'a \<Rightarrow> ('a \<Rightarrow> error + 'b) \<Rightarrow> error + 'b" where
  "bind_err r f = (case r of Inl e \<Rightarrow> Inl e | Inr x \<Rightarrow> f x)"

section \<open>The statistics snapshot\<close>

text \<open>
  What the accessors of the \<^verbatim>\<open>Stats\<close> object return within one run. The data of a
  language is the dictionary \<^verbatim>\<open>data\<close> of the loop: \<open>size_key\<close> is
  \<^verbatim>\<open>data.get("size")\<close> (\<open>None\<close> when the key is missing), \<open>color_key\<close> tells a missing
  key (\<open>None\<close>) from a null colour (\<open>Some None\<close>), and \<open>prop_key\<close> is \<open>None\<close> when the key
  \<^verbatim>\<open>prop\<close> is missing. The mapping of languages is the list of its items in iteration
  order.
\<close>

record lang_data =
  size_key :: "int option"
  color_key :: "string option option"
  prop_key :: "rat option"

record stats =
  name :: string
  stargazers :: int
  forks :: int
  total_contributions :: int
  lines_changed :: "int \<times> int"
  views :: int
  repos :: "string list"
  languages :: "(string \<times> lang_data) list"

section \<open>Sorting the languages\<close>

text \<open>
  \<^verbatim>\<open><\<close> on two sort keys: integers compare, \<^verbatim>\<open>None\<close> compares with nothing, not even
  with \<^verbatim>\<open>None\<close>.
\<close>

definition py_lt :: "int option \<Rightarrow> int option \<Rightarrow> error + bool" where
  "py_lt a b =
     (case a of
        None \<Rightarrow> Inl TypeError
      | Some x \<Rightarrow> (case b of None \<Rightarrow> Inl TypeError | Some y \<Rightarrow> Inr (x < y)))"

text \<open>
  \<^verbatim>\<open>sorted(items, reverse=True, key=...)\<close>. The list sort of Python is stable; with
  \<^verbatim>\<open>reverse=True\<close> it reverses the list, sorts it in ascending order and reverses the
  result. The ascending sort is an insertion sort here: each element in turn goes
  behind the elements it is not smaller than, compared by \<^verbatim>\<open><\<close> on the keys only.
\<close>

fun insert_sorted :: "('a \<Rightarrow> int option) \<Rightarrow> 'a \<Rightarrow> 'a list \<Rightarrow> error + 'a list" where
  "insert_sorted key x [] = Inr [x]"
| "insert_sorted key x (y # ys) =
     bind_err (py_lt (key x) (key y))
       (\<lambda>smaller. if smaller then Inr (x # y # ys)
                  else bind_err (insert_sorted key x ys) (\<lambda>zs. Inr (y # zs)))"

fun sort_into :: "('a \<Rightarrow> int option) \<Rightarrow> 'a list \<Rightarrow> 'a list \<Rightarrow> error + 'a list" where
  "sort_into key acc [] = Inr acc"
| "sort_into key acc (x # xs) =
     bind_err (insert_sorted key x acc) (\<lambda>acc'. sort_into key acc' xs)"

definition py_sorted_reverse :: "('a \<Rightarrow> int option) \<Rightarrow> 'a list \<Rightarrow> error + 'a list" where
  "py_sorted_reverse key xs = bind_err (sort_into key [] (rev xs)) (\<lambda>ys. Inr (rev ys))"

section \<open>The renderers\<close>

text \<open>Lines 60--67 of \<^verbatim>\<open>generate_overview\<close>: the seven substitutions, in order.\<close>

definition overview_substitutions :: "stats \<Rightarrow> string \<Rightarrow> error + string" where
  "overview_substitutions s output =
     bind_err (re_sub ''{{ name }}'' (name s) output) (\<lambda>output.
     bind_err (re_sub ''{{ stars }}'' (format_thousands (stargazers s)) output) (\<lambda>output.
     bind_err (re_sub ''{{ forks }}'' (format_thousands (forks s)) output) (\<lambda>output.
     bind_err (re_sub ''{{ contributions }}''
                 (format_thousands (total_contributions s)) output) (\<lambda>output.
     let changed = fst (lines_changed s) + snd (lines_changed s) in
     bind_err (re_sub ''{{ lines_changed }}'' (format_thousands changed) output) (\<lambda>output.
     bind_err (re_sub ''{{ views }}'' (format_thousands (views s)) output) (\<lambda>output.
     re_sub ''{{ repos }}'' (format_thousands (int (length (repos s)))) output))))))"

text \<open>\<^verbatim>\<open>generate_overview\<close> (lines 52--72).\<close>

definition generate_overview :: "stats \<Rightarrow> unit io" where
  "generate_overview s w =
     (case read_text ''templates/overview.svg'' w of
        Inl e \<Rightarrow> (Inl e, w)
      | Inr output \<Rightarrow>
          (case overview_substitutions s output of
             Inl e \<Rightarrow> (Inl e, w)
           | Inr output \<Rightarrow>
               bind_io generate_output_folder
                 (\<lambda>_. bind_io (write_text ''generated'' ''generated/overview.svg'' output)
                    (\<lambda>_. print ''Generated file: generated/overview.svg'')) w))"

text \<open>
  Lines 89--90: \<^verbatim>\<open>color = data.get("color")\<close>, then
  \<^verbatim>\<open>color if color is not None else "#000000"\<close>.
\<close>

definition resolve_color :: "lang_data \<Rightarrow> string" where
  "resolve_color data =
     (let color = (case color_key data of None \<Rightarrow> None | Some v \<Rightarrow> v)
      in (case color of Some c \<Rightarrow> c | None \<Rightarrow> ''#000000''))"

text \<open>\<^verbatim>\<open>data.get("prop", 0)\<close>.\<close>

definition prop_or_default :: "lang_data \<Rightarrow> rat" where
  "prop_or_default data = (case prop_key data of None \<Rightarrow> 0 | Some p \<Rightarrow> p)"

text \<open>Lines 91--95: what one language adds to \<^verbatim>\<open>progress\<close>.\<close>

definition progress_item :: "string \<Rightarrow> lang_data \<Rightarrow> string" where
  "progress_item color data =
     ''<span style=\"background-color: '' @ color @ '';'' @
     ''width: '' @ format_fixed 3 (prop_or_default data) @ ''%;\" '' @
     ''class=\"progress-item\"></span>''"

text \<open>Lines 96--105: what the language at index \<open>i\<close> adds to \<^verbatim>\<open>lang_list\<close>.\<close>

definition delay_between :: nat where
  "delay_between = 150"

definition lang_list_item :: "nat \<Rightarrow> string \<Rightarrow> string \<Rightarrow> lang_data \<Rightarrow> string" where
  "lang_list_item i lang color data =
     ''\<newline><li style=\"animation-delay: '' @ py_str_nat (i * delay_between) @ ''ms;\">\<newline>'' @
     ''<svg xmlns=\"http://www.w3.org/2000/svg\" class=\"octicon\" style=\"fill:'' @ color @
     '';\"\<newline>'' @
     ''viewBox=\"0 0 16 16\" version=\"1.1\" width=\"16\" height=\"16\"><path\<newline>'' @
     ''fill-rule=\"evenodd\" d=\"M8 4a4 4 0 100 8 4 4 0 000-8z\"></path></svg>\<newline>'' @
     ''<span class=\"lang\">'' @ lang @ ''</span>\<newline>'' @
     ''<span class=\"percent\">'' @ format_fixed 2 (prop_or_default data) @ ''%</span>\<newline>'' @
     ''</li>\<newline>\<newline>''"

text \<open>
  The loop of lines 88--105 over \<^verbatim>\<open>enumerate(sorted_languages)\<close>, from index \<open>i\<close> on,
  with the two fragments built so far.
\<close>

fun render_languages ::
  "nat \<Rightarrow> (string \<times> lang_data) list \<Rightarrow> string \<times> string \<Rightarrow> string \<times> string" where
  "render_languages i [] (progress, lang_list) = (progress, lang_list)"
| "render_languages i ((lang, data) # rest) (progress, lang_list) =
     (let color = resolve_color data;
          progress = progress @ progress_item color data;
          lang_list = lang_list @ lang_list_item i lang color data
      in render_languages (Suc i) rest (progress, lang_list))"

text \<open>Lines 82--108 of \<^verbatim>\<open>generate_languages\<close>: from the template text to the output text.\<close>

definition languages_substitutions :: "stats \<Rightarrow> string \<Rightarrow> error + string" where
  "languages_substitutions s output =
     bind_err (py_sorted_reverse (\<lambda>t. size_key (snd t)) (languages s)) (\<lambda>sorted_languages.
     let (progress, lang_list) = render_languages 0 sorted_languages ([], []) in
     bind_err (re_sub ''{{ progress }}'' progress output) (\<lambda>output.
     re_sub ''{{ lang_list }}'' lang_list output))"

text \<open>\<^verbatim>\<open>generate_languages\<close> (lines 74--113).\<close>

definition generate_languages :: "stats \<Rightarrow> unit io" where
  "generate_languages s w =
     (case read_text ''templates/languages.svg'' w of
        Inl e \<Rightarrow> (Inl e, w)
      | Inr output \<Rightarrow>
          (case languages_substitutions s output of
             Inl e \<Rightarrow> (Inl e, w)
           | Inr output \<Rightarrow>
               bind_io generate_output_folder
                 (\<lambda>_. bind_io (write_text ''generated'' ''generated/languages.svg'' output)
                    (\<lambda>_. print ''Generated file: generated/languages.svg'')) w))"

section \<open>Worlds and collaborators to run the module on\<close>

text \<open>
  A checkout with its two templates and no output directory yet, under the usual
  umask 0o022 = 18; modes 0o755 = 493 and 0o644 = 420.
\<close>

definition world_ready :: world where
  "world_ready =
     \<lparr>nodes = [''templates'' \<mapsto> Dir 493,
               ''templates/overview.svg'' \<mapsto> File ''<svg>{{ name }}</svg>'' 420,
               ''templates/languages.svg'' \<mapsto> File ''<svg>{{ lang_list }}</svg>'' 420],
      umask = 18, stdout = [], sessions_opened = 0, providers = []\<rparr>"

text \<open>The same checkout after \<^verbatim>\<open>generate_output_folder\<close> has created the directory.\<close>

definition world_made :: world where
  "world_made =
     world_ready\<lparr>nodes := (nodes world_ready)(''generated'' \<mapsto> Dir 511),
       stdout := [''Created directory: generated with permissions 777'']\<rparr>"

text \<open>A world whose output directory already exists with mode 0o755.\<close>

definition world_kept :: world where
  "world_kept = \<lparr>nodes = [''generated'' \<mapsto> Dir 493], umask = 18, stdout = [],
      sessions_opened = 0, providers = []\<rparr>"

text \<open>Two stand-ins for the renderers run inside the session.\<close>

definition gather_nothing :: "stats_args \<Rightarrow> unit io" where
  "gather_nothing s w = (Inr (), w)"

definition gather_raise :: "stats_args \<Rightarrow> unit io" where
  "gather_raise s w = (Inl TypeError, w)"

text \<open>Language entries and a snapshot to run the renderers on.\<close>

definition data_bare :: lang_data where
  "data_bare = \<lparr>size_key = Some 10, color_key = None, prop_key = None\<rparr>"

definition data_null_color :: lang_data where
  "data_null_color = \<lparr>size_key = Some 10, color_key = Some None, prop_key = Some (1 / 2)\<rparr>"

definition stats_small :: stats where
  "stats_small = \<lparr>name = ''octocat'', stargazers = 1200, forks = 3, total_contributions = 4500,
     lines_changed = (1000000, 234567), views = 5, repos = [''a'', ''b''], languages = []\<rparr>"


definition stats_no_size :: stats where
  "stats_no_size = \<lparr>name = ''octocat'', stargazers = 1, forks = 2, total_contributions = 3,
     lines_changed = (4, 5), views = 6, repos = [],
     languages =
       [(''C'', \<lparr>size_key = Some 100, color_key = None, prop_key = None\<rparr>),
        (''Go'', \<lparr>size_key = None, color_key = None, prop_key = None\<rparr>)]\<rparr>"

section \<open>Texts that cannot rebuild a placeholder\<close>

text \<open>
  A replacement text \<open>v\<close> is fresh for a placeholder when it holds neither the first
  nor the last character of the placeholder and is not itself a piece of it (so it is
  not empty): no occurrence of the placeholder can then overlap an inserted copy of
  \<open>v\<close>. \<open>plain_text\<close> is text without braces and backslashes.
\<close>

definition fresh_for :: "string \<Rightarrow> string \<Rightarrow> bool" where
  "fresh_for token v \<longleftrightarrow>
     token \<noteq> [] \<and> hd token \<notin> set v \<and> last token \<notin> set v \<and> \<not> sublist v token"

definition plain_text :: "string \<Rightarrow> bool" where
  "plain_text v \<longleftrightarrow> CHR ''{'' \<notin> set v \<and> CHR ''}'' \<notin> set v \<and> CHR 0x5C \<notin> set v"

text \<open>
  A pattern and a text \<open>m\<close> are apart when no occurrence of the pattern can share a
  character with an occurrence of \<open>m\<close>: no end of the pattern begins \<open>m\<close> or is begun
  by it, and no end of \<open>m\<close> begins the pattern or is begun by it. A pattern is
  unbordered when none of its proper ends begins it, so that two occurrences of it never
  overlap.
\<close>

definition apart :: "string \<Rightarrow> string \<Rightarrow> bool" where
  "apart pat m \<longleftrightarrow>
     pat \<noteq> [] \<and>
     list_all (\<lambda>k. \<not> prefix (drop k pat) m \<and> \<not> prefix m (drop k pat)) [1..<length pat] \<and>
     list_all (\<lambda>j. \<not> prefix pat (drop j m) \<and> \<not> prefix (drop j m) pat) [0..<length m]"

definition unbordered :: "string \<Rightarrow> bool" where
  "unbordered pat \<longleftrightarrow>
     pat \<noteq> [] \<and> list_all (\<lambda>k. \<not> prefix (drop k pat) pat) [1..<length pat]"

section \<open>Snapshots with the defaults written out\<close>

text \<open>
  The snapshot in which every language without a \<^verbatim>\<open>prop\<close> key has been given the
  proportion 0, and the one in which every language without a colour (no \<^verbatim>\<open>color\<close>
  key, or a null colour) has been given \<^verbatim>\<open>#000000\<close>: what \<^verbatim>\<open>data.get("prop", 0)\<close>
  and lines 89--90 read from an entry.
\<close>

definition with_default_prop :: "lang_data \<Rightarrow> lang_data" where
  "with_default_prop data =
     (case prop_key data of None \<Rightarrow> data\<lparr>prop_key := Some 0\<rparr> | Some p \<Rightarrow> data)"

definition with_default_props :: "stats \<Rightarrow> stats" where
  "with_default_props s =
     s\<lparr>languages := map (\<lambda>(lang, data). (lang, with_default_prop data)) (languages s)\<rparr>"

definition with_default_color :: "lang_data \<Rightarrow> lang_data" where
  "with_default_color data =
     (case color_key data of
        Some (Some c) \<Rightarrow> data
      | _ \<Rightarrow> data\<lparr>color_key := Some (Some ''#000000'')\<rparr>)"

definition with_default_colors :: "stats \<Rightarrow> stats" where
  "with_default_colors s =
     s\<lparr>languages := map (\<lambda>(lang, data). (lang, with_default_color data)) (languages s)\<rparr>"

text \<open>A snapshot with one language, which has neither colour nor proportion.\<close>

definition stats_one :: stats where
  "stats_one = \<lparr>name = ''octocat'', stargazers = 1, forks = 2, total_contributions = 3,
     lines_changed = (4, 5), views = 6, repos = [],
     languages = [(''Go'', \<lparr>size_key = Some 10, color_key = None, prop_key = None\<rparr>)]\<rparr>"

text \<open>A snapshot with one language, whose colour is null.\<close>

definition stats_null_one :: stats where
  "stats_null_one = \<lparr>name = ''octocat'', stargazers = 1, forks = 2, total_contributions = 3,
     lines_changed = (4, 5), views = 6, repos = [],
     languages = [(''Go'', data_null_color)]\<rparr>"

text \<open>
  A snapshot of two languages: one with a size and a null colour, the other with
  neither size nor colour.
\<close>

definition stats_null_color :: stats where
  "stats_null_color = \<lparr>name = ''octocat'', stargazers = 1, forks = 2, total_contributions = 3,
     lines_changed = (4, 5), views = 6, repos = [],
     languages =
       [(''C'', \<lparr>size_key = Some 100, color_key = Some None, prop_key = Some 60\<rparr>),
        (''Go'', \<lparr>size_key = None, color_key = None, prop_key = Some 40\<rparr>)]\<rparr>"

text \<open>
  A checkout whose output directory exists already, with an overview template that has
  a style rule in braces and four of the placeholders, and a languages template with
  both of its placeholders.
\<close>

definition world_badges :: world where
  "world_badges =
     \<lparr>nodes = [''templates'' \<mapsto> Dir 493,
               ''templates/overview.svg'' \<mapsto>
                 File (''<svg><style>text { fill: #333; }</style>'' @
                       ''<text>{{ name }}: {{ stars }} stars, '' @
                       ''{{ lines_changed }} lines, {{ repos }} repos</text></svg>'') 420,
               ''templates/languages.svg'' \<mapsto>
                 File ''<svg>{{ progress }}<ul>{{ lang_list }}</ul></svg>'' 420,
               ''generated'' \<mapsto> Dir 511],
      umask = 18, stdout = [], sessions_opened = 0, providers = []\<rparr>"

section \<open>Facts about the text primitives\<close>

lemma py_lower_char_f:
  "py_lower_char c = CHR ''f'' \<longleftrightarrow> c = CHR ''f'' \<or> c = CHR ''F''"
  by (cases c) (auto simp: py_lower_char_def Let_def char_of_def bit_Suc_0_iff)

lemma py_lower_char_a:
  "py_lower_char c = CHR ''a'' \<longleftrightarrow> c = CHR ''a'' \<or> c = CHR ''A''"
  by (cases c) (auto simp: py_lower_char_def Let_def char_of_def bit_Suc_0_iff)

lemma py_lower_char_l:
  "py_lower_char c = CHR ''l'' \<longleftrightarrow> c = CHR ''l'' \<or> c = CHR ''L''"
  by (cases c) (auto simp: py_lower_char_def Let_def char_of_def bit_Suc_0_iff)

lemma py_lower_char_s:
  "py_lower_char c = CHR ''s'' \<longleftrightarrow> c = CHR ''s'' \<or> c = CHR ''S''"
  by (cases c) (auto simp: py_lower_char_def Let_def char_of_def bit_Suc_0_iff)

lemma py_lower_char_e:
  "py_lower_char c = CHR ''e'' \<longleftrightarrow> c = CHR ''e'' \<or> c = CHR ''E''"
  by (cases c) (auto simp: py_lower_char_def Let_def char_of_def bit_Suc_0_iff)

lemma py_lower_false_iff: "py_lower v = ''false'' \<longleftrightarrow> spelling_of_false v"
  unfolding py_lower_def spelling_of_false_def
  by (auto simp: list_all2_Cons2 map_eq_Cons_conv py_lower_char_f py_lower_char_a
        py_lower_char_l py_lower_char_s py_lower_char_e)

section \<open>Facts about the helper functions and \<^verbatim>\<open>main\<close>\<close>

lemma generate_output_folder_world_ready:
  "generate_output_folder world_ready = (Inr (), world_made)"
  by (simp add: generate_output_folder_def world_ready_def world_made_def os_path_isdir_def
        bind_io_def os_mkdir_def os_chmod_def print_def)

lemma check_permissions_world_made: "check_permissions world_made = Inr ()"
  by (simp add: check_permissions_def world_ready_def world_made_def os_path_isdir_def
        os_path_isfile_def os_access_def R_OK_def W_OK_def)

lemma generate_output_folder_keeps:
  "generate_output_folder w = (r, w') \<Longrightarrow>
     sessions_opened w' = sessions_opened w \<and> providers w' = providers w \<and>
     (\<forall>p. p \<noteq> ''generated'' \<longrightarrow> nodes w' p = nodes w p)"
  by (auto simp: generate_output_folder_def bind_io_def os_mkdir_def os_chmod_def print_def
        split: if_splits option.splits node.splits prod.splits sum.splits)

lemma main_missing_config:
  assumes "env ''ACCESS_TOKEN'' = None \<or> env ''GITHUB_ACTOR'' = None"
  shows "\<exists>e. main env gather w = (Inl e, snd (generate_output_folder w))"
  using assms
  by (cases "generate_output_folder w")
     (auto simp: main_def bind_io_def Let_def split: sum.splits option.splits)

lemma main_missing_config_same:
  assumes "env ''ACCESS_TOKEN'' = None \<or> env ''GITHUB_ACTOR'' = None"
  shows "main env gather' w = main env gather w"
  using assms
  by (cases "generate_output_folder w")
     (auto simp: main_def bind_io_def Let_def split: sum.splits option.splits)

lemma main_world_ready_no_token:
  "main Map.empty gather world_ready =
     (Inl (Exception ''A personal access token is required to proceed!''), world_made)"
  by (simp add: main_def bind_io_def generate_output_folder_world_ready
        check_permissions_world_made)

section \<open>Facts about formatting and substitution\<close>

lemma format_fixed_3_zero: "format_fixed 3 0 = ''0.000''"
  by code_simp

lemma format_fixed_2_zero: "format_fixed 2 0 = ''0.00''"
  by code_simp

lemma cons_ok_Inr [simp]: "cons_ok c (Inr s) = Inr (c # s)"
  by (simp add: cons_ok_def)

lemma append_ok_Inr [simp]: "append_ok p (Inr s) = Inr (p @ s)"
  by (simp add: append_ok_def)

lemma bind_err_Inr [simp]: "bind_err (Inr x) f = f x"
  by (simp add: bind_err_def)

lemma bind_err_Inl [simp]: "bind_err (Inl e) f = Inl e"
  by (simp add: bind_err_def)

lemma expand_template_literal: "CHR 0x5C \<notin> set r \<Longrightarrow> expand_template m r = Inr r"
  by (induction r) auto

lemma re_sub_literal: "CHR 0x5C \<notin> set r \<Longrightarrow> re_sub pat r s = Inr (replace_all pat r s)"
  by (simp add: re_sub_def expand_template_literal)

lemma digit_char_is_digit: "d < 10 \<Longrightarrow> is_digit (digit_char d)"
proof -
  assume "d < 10"
  then have "d \<in> {0, 1, 2, 3, 4, 5, 6, 7, 8, 9}" by auto
  then show ?thesis by (auto simp: digit_char_def is_digit_def)
qed

lemma py_str_nat_digits: "c \<in> set (py_str_nat n) \<Longrightarrow> is_digit c"
proof (induction n rule: py_str_nat.induct)
  case (1 n)
  show ?case
  proof (cases "n < 10")
    case True
    with "1.prems" show ?thesis
      using digit_char_is_digit [of n] by (subst (asm) py_str_nat.simps) simp
  next
    case False
    have "n mod 10 < 10" by simp
    from digit_char_is_digit [OF this] 1 False show ?thesis
      by (subst (asm) (2) py_str_nat.simps) auto
  qed
qed

lemma group_thousands_chars:
  "c \<in> set (group_thousands ds) \<Longrightarrow> c = CHR '','' \<or> c \<in> set ds"
  by (induction ds rule: group_thousands.induct) auto

lemma format_thousands_chars:
  "c \<in> set (format_thousands n) \<Longrightarrow> is_digit c \<or> c = CHR '','' \<or> c = CHR ''-''"
proof -
  assume "c \<in> set (format_thousands n)"
  then have "c = CHR ''-'' \<or> c \<in> set (group_thousands (rev (py_str_nat (nat \<bar>n\<bar>))))"
    by (auto simp: format_thousands_def split: if_splits)
  then show ?thesis
    using group_thousands_chars [of c "rev (py_str_nat (nat \<bar>n\<bar>))"]
      py_str_nat_digits [of c "nat \<bar>n\<bar>"]
    by auto
qed

lemma format_thousands_no_backslash: "CHR 0x5C \<notin> set (format_thousands n)"
  using format_thousands_chars [of "CHR 0x5C" n] by (auto simp: is_digit_def)

lemma format_thousands_no_brace: "CHR ''{'' \<notin> set (format_thousands n)"
  using format_thousands_chars [of "CHR ''{''" n] by (auto simp: is_digit_def)

lemma re_sub_number:
  "re_sub pat (format_thousands n) s = Inr (replace_all pat (format_thousands n) s)"
  by (simp add: re_sub_literal format_thousands_no_backslash)

lemma replace_all_skip:
  "c \<notin> set pre \<Longrightarrow> replace_all (c # t) v (pre @ r) = pre @ replace_all (c # t) v r"
  by (induction pre) auto

lemma replace_all_absent: "c \<notin> set s \<Longrightarrow> replace_all (c # t) v s = s"
  using replace_all_skip [of c s t v "[]"] by simp

lemma py_str_nat_0: "py_str_nat 0 = ''0''"
  by (simp add: py_str_nat.simps digit_char_def)

lemma format_fixed_half_3: "format_fixed 3 (1 / 2) = ''0.500''"
  by code_simp

lemma format_fixed_half_2: "format_fixed 2 (1 / 2) = ''0.50''"
  by code_simp

lemma format_thousands_example: "format_thousands 1234567 = ''1,234,567''"
  by (simp add: format_thousands_def py_str_nat.simps digit_char_def)

section \<open>Facts about the sort\<close>

lemma py_lt_Some [simp]: "py_lt (Some x) (Some y) = Inr (x < y)"
  by (simp add: py_lt_def)

lemma py_lt_Inr_iff: "py_lt a b = Inr r \<longleftrightarrow> (\<exists>x y. a = Some x \<and> b = Some y \<and> r = (x < y))"
  by (auto simp: py_lt_def split: option.splits)

lemma py_lt_Inl: "py_lt a b = Inl e \<Longrightarrow> e = TypeError"
  by (auto simp: py_lt_def split: option.splits)

lemma bind_err_Inr_iff: "bind_err r f = Inr y \<longleftrightarrow> (\<exists>x. r = Inr x \<and> f x = Inr y)"
  by (cases r) simp_all

lemma bind_err_Inl_iff: "bind_err r f = Inl e \<longleftrightarrow> r = Inl e \<or> (\<exists>x. r = Inr x \<and> f x = Inl e)"
  by (cases r) simp_all

lemma insert_sorted_Inl: "insert_sorted key x ys = Inl e \<Longrightarrow> e = TypeError"
  by (induction ys) (auto simp: bind_err_Inl_iff dest: py_lt_Inl split: if_splits)

lemma insert_sorted_Cons_Inr:
  "insert_sorted key x (y # ys) = Inr zs \<Longrightarrow> key x \<noteq> None \<and> key y \<noteq> None"
  by (auto simp: bind_err_Inr_iff py_lt_Inr_iff)

lemma insert_sorted_set:
  "insert_sorted key x ys = Inr zs \<Longrightarrow> set zs = insert x (set ys) \<and> length zs = Suc (length ys)"
  by (induction ys arbitrary: zs) (auto simp: bind_err_Inr_iff split: if_splits)

lemma insert_sorted_total:
  "key x \<noteq> None \<Longrightarrow> \<forall>y\<in>set ys. key y \<noteq> None \<Longrightarrow> \<exists>zs. insert_sorted key x ys = Inr zs"
  by (induction ys) auto

lemma insert_sorted_sorted:
  "insert_sorted key x ys = Inr zs \<Longrightarrow> sorted (map (\<lambda>t. the (key t)) ys) \<Longrightarrow>
     sorted (map (\<lambda>t. the (key t)) zs)"
proof (induction ys arbitrary: zs)
  case Nil
  then show ?case by auto
next
  case (Cons y ys)
  from Cons.prems(1) obtain a b where k: "key x = Some a" "key y = Some b"
    using insert_sorted_Cons_Inr by fastforce
  show ?case
  proof (cases "a < b")
    case True
    then have zs: "zs = x # y # ys" using Cons.prems(1) k by simp
    have "\<forall>t\<in>set ys. b \<le> the (key t)" using Cons.prems(2) k by simp
    with True have "\<forall>t\<in>set ys. a \<le> the (key t)" by fastforce
    with zs True k Cons.prems(2) show ?thesis by simp
  next
    case False
    with Cons.prems(1) k obtain zs' where z: "insert_sorted key x ys = Inr zs'" "zs = y # zs'"
      by (auto simp: bind_err_Inr_iff)
    from Cons.prems(2) have "sorted (map (\<lambda>t. the (key t)) ys)" by simp
    from Cons.IH [OF z(1) this] insert_sorted_set [OF z(1)] Cons.prems(2) False k z(2)
    show ?thesis by auto
  qed
qed

lemma insert_sorted_stable:
  "insert_sorted key x ys = Inr zs \<Longrightarrow> sorted (map (\<lambda>t. the (key t)) ys) \<Longrightarrow>
     filter (\<lambda>t. key t = v) zs = filter (\<lambda>t. key t = v) ys @ (if key x = v then [x] else [])"
proof (induction ys arbitrary: zs)
  case Nil
  then show ?case by auto
next
  case (Cons y ys)
  from Cons.prems(1) obtain a b where k: "key x = Some a" "key y = Some b"
    using insert_sorted_Cons_Inr by fastforce
  show ?case
  proof (cases "a < b")
    case True
    then have zs: "zs = x # y # ys" using Cons.prems(1) k by simp
    have "\<forall>t\<in>set (y # ys). key t \<noteq> key x"
    proof
      fix t assume t: "t \<in> set (y # ys)"
      then have "b \<le> the (key t)" using Cons.prems(2) k by auto
      with True k show "key t \<noteq> key x" by auto
    qed
    then have "key x = v \<Longrightarrow> filter (\<lambda>t. key t = v) (y # ys) = []"
      by (auto simp: filter_empty_conv)
    with zs show ?thesis by auto
  next
    case False
    with Cons.prems(1) k obtain zs' where z: "insert_sorted key x ys = Inr zs'" "zs = y # zs'"
      by (auto simp: bind_err_Inr_iff)
    from Cons.prems(2) have "sorted (map (\<lambda>t. the (key t)) ys)" by simp
    from Cons.IH [OF z(1) this] z(2) show ?thesis by simp
  qed
qed

lemma sort_into_Inl: "sort_into key acc xs = Inl e \<Longrightarrow> e = TypeError"
  by (induction xs arbitrary: acc) (auto simp: bind_err_Inl_iff dest: insert_sorted_Inl)

lemma sort_into_stable:
  "\<forall>t\<in>set acc \<union> set xs. key t \<noteq> None \<Longrightarrow> sorted (map (\<lambda>t. the (key t)) acc) \<Longrightarrow>
     \<exists>zs. sort_into key acc xs = Inr zs \<and> sorted (map (\<lambda>t. the (key t)) zs) \<and>
          (\<forall>v. filter (\<lambda>t. key t = v) zs =
                filter (\<lambda>t. key t = v) acc @ filter (\<lambda>t. key t = v) xs)"
proof (induction xs arbitrary: acc)
  case Nil
  then show ?case by simp
next
  case (Cons x xs)
  from Cons.prems(1) obtain acc' where a: "insert_sorted key x acc = Inr acc'"
    using insert_sorted_total [of key x acc] by auto
  have 1: "\<forall>t\<in>set acc' \<union> set xs. key t \<noteq> None"
    using insert_sorted_set [OF a] Cons.prems(1) by auto
  have 2: "sorted (map (\<lambda>t. the (key t)) acc')"
    using insert_sorted_sorted [OF a Cons.prems(2)] .
  from Cons.IH [OF 1 2] obtain zs where zs: "sort_into key acc' xs = Inr zs"
    "sorted (map (\<lambda>t. the (key t)) zs)"
    "\<forall>v. filter (\<lambda>t. key t = v) zs =
         filter (\<lambda>t. key t = v) acc' @ filter (\<lambda>t. key t = v) xs"
    by blast
  have "\<forall>v. filter (\<lambda>t. key t = v) zs =
         filter (\<lambda>t. key t = v) acc @ filter (\<lambda>t. key t = v) (x # xs)"
    using zs(3) insert_sorted_stable [OF a Cons.prems(2)] by simp
  with zs(1,2) a show ?case by simp
qed

lemma py_sorted_reverse_stable:
  assumes "\<forall>t\<in>set xs. key t \<noteq> None"
  shows "\<exists>ys. py_sorted_reverse key xs = Inr ys \<and>
           sorted_wrt (\<lambda>a b. the (key b) \<le> the (key a)) ys \<and>
           (\<forall>v. filter (\<lambda>t. key t = v) ys = filter (\<lambda>t. key t = v) xs)"
proof -
  from assms have "\<forall>t\<in>set [] \<union> set (rev xs). key t \<noteq> None" by simp
  from sort_into_stable [OF this, of ] obtain zs where zs: "sort_into key [] (rev xs) = Inr zs"
    "sorted (map (\<lambda>t. the (key t)) zs)"
    "\<forall>v. filter (\<lambda>t. key t = v) zs = filter (\<lambda>t. key t = v) (rev xs)"
    by auto
  have "sorted_wrt (\<lambda>a b. the (key b) \<le> the (key a)) (rev zs)"
    using zs(2) by (simp add: sorted_wrt_rev sorted_map)
  moreover have "\<forall>v. filter (\<lambda>t. key t = v) (rev zs) = filter (\<lambda>t. key t = v) xs"
    using zs(3) by (simp add: rev_filter [symmetric])
  ultimately show ?thesis
    using zs(1) by (simp add: py_sorted_reverse_def)
qed

lemma sort_into_Inr_keys:
  "sort_into key acc xs = Inr zs \<Longrightarrow> (\<forall>t\<in>set acc. key t \<noteq> None) \<or> length acc \<le> 1 \<Longrightarrow>
     (\<forall>t\<in>set acc \<union> set xs. key t \<noteq> None) \<or> length acc + length xs \<le> 1"
proof (induction xs arbitrary: acc)
  case Nil
  then show ?case by simp
next
  case (Cons x xs)
  from Cons.prems(1) obtain acc' where a: "insert_sorted key x acc = Inr acc'"
    and s: "sort_into key acc' xs = Inr zs"
    by (auto simp: bind_err_Inr_iff)
  note sl = insert_sorted_set [OF a]
  show ?case
  proof (cases acc)
    case Nil
    with a have "acc' = [x]" by simp
    with Cons.IH [OF s] Nil show ?thesis by auto
  next
    case (Cons y ys)
    with a have k: "key x \<noteq> None" "key y \<noteq> None"
      using insert_sorted_Cons_Inr by fastforce+
    with Cons.prems(2) Cons have all: "\<forall>t\<in>set acc. key t \<noteq> None"
      by (cases ys) auto
    with sl k have "\<forall>t\<in>set acc'. key t \<noteq> None" by auto
    with Cons.IH [OF s] sl Cons show ?thesis by auto
  qed
qed

lemma py_sorted_reverse_missing_key:
  assumes "2 \<le> length xs" and "\<exists>t\<in>set xs. key t = None"
  shows "py_sorted_reverse key xs = Inl TypeError"
proof (cases "sort_into key [] (rev xs)")
  case (Inl e)
  with sort_into_Inl [OF Inl] show ?thesis
    by (simp add: py_sorted_reverse_def)
next
  case (Inr zs)
  from sort_into_Inr_keys [OF Inr] assms show ?thesis by auto
qed

lemma read_text_world_ready:
  "read_text ''templates/languages.svg'' world_ready = Inr ''<svg>{{ lang_list }}</svg>''"
  by (simp add: read_text_def world_ready_def os_access_def R_OK_def)

section \<open>Facts about texts that cannot rebuild a placeholder\<close>

lemma sublist_length_le: "sublist xs ys \<Longrightarrow> length xs \<le> length ys"
  by (auto simp: sublist_def)

lemma sublist_set: "sublist xs ys \<Longrightarrow> set xs \<subseteq> set ys"
  by (auto simp: sublist_def)

lemma fresh_no_overlap:
  assumes f: "fresh_for T V" and s: "sublist T (a @ V @ b)"
  shows "sublist T a \<or> sublist T b"
proof -
  from f have ne: "T \<noteq> []" and h: "hd T \<notin> set V" and l: "last T \<notin> set V"
    and nv: "\<not> sublist V T"
    by (simp_all add: fresh_for_def)
  from s consider "sublist T a" | "sublist T (V @ b)"
    | t1 t2 where "T = t1 @ t2" "suffix t1 a" "prefix t2 (V @ b)"
    by (auto simp: sublist_append)
  then show ?thesis
  proof cases
    case 1
    then show ?thesis by simp
  next
    case 2
    then consider "sublist T V" | "sublist T b"
      | t1 t2 where "T = t1 @ t2" "suffix t1 V" "prefix t2 b"
      by (auto simp: sublist_append)
    then show ?thesis
    proof cases
      case 1
      from ne have "hd T \<in> set T" by simp
      with sublist_set [OF 1] h show ?thesis by blast
    next
      case 2
      then show ?thesis by simp
    next
      case (3 t1 t2)
      show ?thesis
      proof (cases "t1 = []")
        case True
        with 3 show ?thesis by (auto simp: prefix_def)
      next
        case False
        with 3 have "hd T \<in> set V"
          by (auto simp: suffix_def)
        with h show ?thesis by simp
      qed
    qed
  next
    case (3 t1 t2)
    from 3(3) consider "prefix t2 V" | t2' where "t2 = V @ t2'"
      by (auto simp: prefix_append)
    then show ?thesis
    proof cases
      case 1
      show ?thesis
      proof (cases "t2 = []")
        case True
        with 3 show ?thesis by (auto simp: suffix_def)
      next
        case False
        with 1 3(1) have "last T \<in> set V"
          by (auto simp: prefix_def)
        with l show ?thesis by simp
      qed
    next
      case 2
      with 3(1) nv show ?thesis by (auto simp: sublist_def)
    qed
  qed
qed

lemma replace_all_keeps_absent:
  "fresh_for T' V \<Longrightarrow> T \<noteq> [] \<Longrightarrow> \<not> sublist T' (p @ s) \<Longrightarrow>
     \<not> sublist T' (p @ replace_all T V s)"
proof (induction T V s arbitrary: p rule: replace_all.induct)
  case (1 pat rep)
  then show ?case by simp
next
  case (2 pat rep c cs)
  note f = "2.prems"(1) and ne = "2.prems"(2)
  show ?case
  proof (cases "prefix pat (c # cs)")
    case True
    then obtain s' where s': "c # cs = pat @ s'"
      by (auto simp: prefix_def)
    then have d: "drop (length pat) (c # cs) = s'" by (metis append_eq_conv_conj)
    have "\<not> sublist T' (p @ rep @ s')"
    proof
      assume "sublist T' (p @ rep @ s')"
      from fresh_no_overlap [OF f this] have "sublist T' p \<or> sublist T' s'" .
      then have "sublist T' (p @ pat @ s')"
        by (metis sublist_append append_assoc)
      with "2.prems"(3) s' show False by simp
    qed
    then have "\<not> sublist T' ((p @ rep) @ drop (length pat) (c # cs))"
      using d by simp
    from "2.IH"(2) [OF ne True f ne this] True ne d show ?thesis
      by simp
  next
    case False
    from "2.prems"(3) have "\<not> sublist T' ((p @ [c]) @ cs)" by simp
    from "2.IH"(3) [OF ne False f ne this] False ne show ?thesis by simp
  qed
qed


lemma prefix_take_shorter:
  assumes "prefix t (take n s)" and "length t \<le> m"
  shows "prefix t (take m s)"
proof -
  from assms(1) have "prefix t s"
    using take_is_prefix prefix_order.trans by blast
  then obtain r where "s = t @ r" by (auto simp: prefix_def)
  with assms(2) show ?thesis by (simp add: prefix_def)
qed

lemma sublist_one_more:
  assumes ne: "T \<noteq> []" and s: "sublist T (p @ take (length T) s)"
  shows "sublist T (p @ take (length T - 1) s) \<or> prefix T s"
proof -
  from s consider "sublist T p" | "sublist T (take (length T) s)"
    | t1 t2 where "T = t1 @ t2" "suffix t1 p" "prefix t2 (take (length T) s)"
    by (auto simp: sublist_append)
  then show ?thesis
  proof cases
    case 1
    then show ?thesis by (simp add: sublist_append)
  next
    case 2
    then obtain ps ss where e: "take (length T) s = ps @ T @ ss"
      by (auto simp: sublist_def)
    then have "length (ps @ T @ ss) \<le> length T"
      by (metis length_take min.cobounded2)
    then have "ps = []" "ss = []" by simp_all
    with e have "take (length T) s = T" by simp
    then have "prefix T s" by (metis take_is_prefix)
    then show ?thesis by simp
  next
    case (3 t1 t2)
    show ?thesis
    proof (cases "t1 = []")
      case True
      with 3 have "prefix T (take (length T) s)" by simp
      then have "prefix T s"
        using take_is_prefix prefix_order.trans by blast
      then show ?thesis by simp
    next
      case False
      with 3(1) have "length t2 \<le> length T - 1" by (cases t1) auto
      from prefix_take_shorter [OF 3(3) this] 3(1,2) show ?thesis
        by (auto simp: sublist_append)
    qed
  qed
qed

lemma replace_all_removes:
  "fresh_for T V \<Longrightarrow> \<not> sublist T (p @ take (length T - 1) s) \<Longrightarrow>
     \<not> sublist T (p @ replace_all T V s)"
proof (induction T V s arbitrary: p rule: replace_all.induct)
  case (1 pat rep)
  then show ?case by (simp add: fresh_for_def)
next
  case (2 pat rep c cs)
  note f = "2.prems"(1)
  then have ne: "pat \<noteq> []" by (simp add: fresh_for_def)
  show ?case
  proof (cases "prefix pat (c # cs)")
    case True
    then obtain s' where s': "c # cs = pat @ s'"
      by (auto simp: prefix_def)
    then have d: "drop (length pat) (c # cs) = s'" by (metis append_eq_conv_conj)
    have "\<not> sublist pat (p @ rep @ take (length pat - 1) s')"
    proof
      assume "sublist pat (p @ rep @ take (length pat - 1) s')"
      from fresh_no_overlap [OF f this]
      have "sublist pat p \<or> sublist pat (take (length pat - 1) s')" .
      then show False
      proof
        assume "sublist pat p"
        then have "sublist pat (p @ take (length pat - 1) (c # cs))"
          by (simp add: sublist_append)
        with "2.prems"(2) show False by simp
      next
        assume "sublist pat (take (length pat - 1) s')"
        from sublist_length_le [OF this] ne show False by (cases pat) auto
      qed
    qed
    then have "\<not> sublist pat ((p @ rep) @ take (length pat - 1) (drop (length pat) (c # cs)))"
      using d by simp
    from "2.IH"(2) [OF ne True f this] True ne d show ?thesis
      by simp
  next
    case False
    have "\<not> sublist pat ((p @ [c]) @ take (length pat - 1) cs)"
    proof
      assume a: "sublist pat ((p @ [c]) @ take (length pat - 1) cs)"
      have "c # take (length pat - 1) cs = take (length pat) (c # cs)"
        using ne by (cases pat) auto
      with a have "sublist pat (p @ take (length pat) (c # cs))" by simp
      from sublist_one_more [OF ne this] "2.prems"(2) False show False by simp
    qed
    from "2.IH"(3) [OF ne False f this] False ne show ?thesis by simp
  qed
qed

lemma replace_all_fresh: "fresh_for T V \<Longrightarrow> \<not> sublist T (replace_all T V s)"
proof -
  assume f: "fresh_for T V"
  then have "T \<noteq> []" by (simp add: fresh_for_def)
  then have "length (take (length T - 1) s) < length T" by (cases T) auto
  then have "\<not> sublist T ([] @ take (length T - 1) s)"
    using sublist_length_le [of T "take (length T - 1) s"] by auto
  from replace_all_removes [OF f this] show ?thesis by simp
qed

lemma replace_all_keeps: 
  "fresh_for T' V \<Longrightarrow> T \<noteq> [] \<Longrightarrow> \<not> sublist T' s \<Longrightarrow> \<not> sublist T' (replace_all T V s)"
  using replace_all_keeps_absent [of T' V T "[]" s] by simp

lemma py_str_nat_nonempty: "py_str_nat n \<noteq> []"
  by (subst py_str_nat.simps) simp

lemma group_thousands_nonempty: "ds \<noteq> [] \<Longrightarrow> group_thousands ds \<noteq> []"
  by (induction ds rule: group_thousands.induct) auto

lemma format_thousands_nonempty: "format_thousands n \<noteq> []"
  by (simp add: format_thousands_def group_thousands_nonempty py_str_nat_nonempty)

lemma number_fresh:
  assumes "T \<noteq> []" and "\<forall>c\<in>set T. \<not> is_digit c \<and> c \<noteq> CHR '','' \<and> c \<noteq> CHR ''-''"
  shows "fresh_for T (format_thousands n)"
proof -
  have a: "c \<in> set T \<Longrightarrow> c \<notin> set (format_thousands n)" for c
    using assms(2) format_thousands_chars [of c n] by auto
  from assms(1) have "hd T \<in> set T" "last T \<in> set T" by simp_all
  then have "hd T \<notin> set (format_thousands n)" "last T \<notin> set (format_thousands n)"
    using a by blast+
  moreover have "\<not> sublist (format_thousands n) T"
  proof
    assume "sublist (format_thousands n) T"
    then have "set (format_thousands n) \<subseteq> set T" by (rule sublist_set)
    moreover obtain c where "c \<in> set (format_thousands n)"
      using format_thousands_nonempty [of n] by (cases "format_thousands n") auto
    ultimately show False using a by blast
  qed
  ultimately show ?thesis using assms(1) by (simp add: fresh_for_def)
qed

lemma name_token_number: "fresh_for ''{{ name }}'' (format_thousands n)"
  by (rule number_fresh) (simp_all add: is_digit_def)

lemma stars_token_number: "fresh_for ''{{ stars }}'' (format_thousands n)"
  by (rule number_fresh) (simp_all add: is_digit_def)

lemma forks_token_number: "fresh_for ''{{ forks }}'' (format_thousands n)"
  by (rule number_fresh) (simp_all add: is_digit_def)

lemma contributions_token_number: "fresh_for ''{{ contributions }}'' (format_thousands n)"
  by (rule number_fresh) (simp_all add: is_digit_def)

lemma lines_changed_token_number: "fresh_for ''{{ lines_changed }}'' (format_thousands n)"
  by (rule number_fresh) (simp_all add: is_digit_def)

lemma views_token_number: "fresh_for ''{{ views }}'' (format_thousands n)"
  by (rule number_fresh) (simp_all add: is_digit_def)

lemma repos_token_number: "fresh_for ''{{ repos }}'' (format_thousands n)"
  by (rule number_fresh) (simp_all add: is_digit_def)

lemmas token_number =
  name_token_number stars_token_number forks_token_number contributions_token_number
  lines_changed_token_number views_token_number repos_token_number

lemma overview_substitutions_form:
  assumes "overview_substitutions s tpl = Inr out"
  shows "\<exists>v. expand_template ''{{ name }}'' (name s) = Inr v \<and>
    out =
      replace_all ''{{ repos }}'' (format_thousands (int (length (repos s))))
       (replace_all ''{{ views }}'' (format_thousands (views s))
         (replace_all ''{{ lines_changed }}''
            (format_thousands (fst (lines_changed s) + snd (lines_changed s)))
           (replace_all ''{{ contributions }}'' (format_thousands (total_contributions s))
             (replace_all ''{{ forks }}'' (format_thousands (forks s))
               (replace_all ''{{ stars }}'' (format_thousands (stargazers s))
                 (replace_all ''{{ name }}'' v tpl))))))"
  using assms
  by (auto simp: overview_substitutions_def re_sub_number Let_def re_sub_def [of "''{{ name }}''"]
        split: sum.splits)

lemma overview_numbers_absent:
  assumes "overview_substitutions s tpl = Inr out"
  shows "\<not> sublist ''{{ stars }}'' out" and "\<not> sublist ''{{ forks }}'' out"
    and "\<not> sublist ''{{ contributions }}'' out" and "\<not> sublist ''{{ lines_changed }}'' out"
    and "\<not> sublist ''{{ views }}'' out" and "\<not> sublist ''{{ repos }}'' out"
proof -
  from overview_substitutions_form [OF assms] obtain v where
    out: "out =
      replace_all ''{{ repos }}'' (format_thousands (int (length (repos s))))
       (replace_all ''{{ views }}'' (format_thousands (views s))
         (replace_all ''{{ lines_changed }}''
            (format_thousands (fst (lines_changed s) + snd (lines_changed s)))
           (replace_all ''{{ contributions }}'' (format_thousands (total_contributions s))
             (replace_all ''{{ forks }}'' (format_thousands (forks s))
               (replace_all ''{{ stars }}'' (format_thousands (stargazers s))
                 (replace_all ''{{ name }}'' v tpl))))))"
    by blast
  show "\<not> sublist ''{{ stars }}'' out"
    unfolding out by (intro replace_all_fresh replace_all_keeps token_number; simp)
  show "\<not> sublist ''{{ forks }}'' out"
    unfolding out by (intro replace_all_fresh replace_all_keeps token_number; simp)
  show "\<not> sublist ''{{ contributions }}'' out"
    unfolding out by (intro replace_all_fresh replace_all_keeps token_number; simp)
  show "\<not> sublist ''{{ lines_changed }}'' out"
    unfolding out by (intro replace_all_fresh replace_all_keeps token_number; simp)
  show "\<not> sublist ''{{ views }}'' out"
    unfolding out by (intro replace_all_fresh replace_all_keeps token_number; simp)
  show "\<not> sublist ''{{ repos }}'' out"
    unfolding out by (intro replace_all_fresh replace_all_keeps token_number; simp)
qed


section \<open>Facts about the language fragments\<close>

lemma plain_text_Nil [simp]: "plain_text []"
  by (simp add: plain_text_def)


lemma plain_text_append [simp]: "plain_text (a @ b) \<longleftrightarrow> plain_text a \<and> plain_text b"
  by (auto simp: plain_text_def)


lemma not_digit_special:
  "\<not> is_digit (CHR ''{'')" "\<not> is_digit (CHR ''}'')" "\<not> is_digit (CHR 0x5C)"
  by (simp_all add: is_digit_def)

lemma plain_text_digits:
  assumes "\<And>c. c \<in> set v \<Longrightarrow> is_digit c \<or> c = CHR ''.'' \<or> c = CHR ''-''"
  shows "plain_text v"
  unfolding plain_text_def
  using assms [of "CHR ''{''"] assms [of "CHR ''}''"] assms [of "CHR 0x5C"] not_digit_special
  by auto

lemma plain_text_py_str_nat [simp]: "plain_text (py_str_nat n)"
  by (rule plain_text_digits) (simp add: py_str_nat_digits)

lemma format_fixed_chars:
  assumes "c \<in> set (format_fixed prec x)"
  shows "is_digit c \<or> c = CHR ''.'' \<or> c = CHR ''-''"
proof -
  define n where "n = nat (round_half_even (\<bar>x\<bar> * 10 ^ prec))"
  define frac where "frac = py_str_nat (n mod 10 ^ prec)"
  have z: "is_digit (CHR ''0'')" by (simp add: is_digit_def)
  from assms have "c \<in> set ''-'' \<or> c \<in> set (py_str_nat (n div 10 ^ prec)) \<or> c = CHR ''.''
      \<or> c \<in> set (replicate (prec - length frac) CHR ''0'') \<or> c \<in> set frac"
    unfolding format_fixed_def Let_def n_def [symmetric] frac_def [symmetric]
    by (auto split: if_splits)
  then show ?thesis
    using z py_str_nat_digits [of c] by (auto simp: frac_def)
qed

lemma plain_text_format_fixed [simp]: "plain_text (format_fixed prec x)"
  by (rule plain_text_digits) (rule format_fixed_chars)






lemma sort_into_set: "sort_into key acc xs = Inr zs \<Longrightarrow> set zs = set acc \<union> set xs"
proof (induction xs arbitrary: acc)
  case Nil
  then show ?case by simp
next
  case (Cons x xs)
  from Cons.prems obtain acc' where a: "insert_sorted key x acc = Inr acc'"
    and s: "sort_into key acc' xs = Inr zs"
    by (auto simp: bind_err_Inr_iff)
  from Cons.IH [OF s] insert_sorted_set [OF a] show ?case by auto
qed

lemma py_sorted_reverse_set: "py_sorted_reverse key xs = Inr ys \<Longrightarrow> set ys = set xs"
  by (auto simp: py_sorted_reverse_def bind_err_Inr_iff dest: sort_into_set)



section \<open>Facts about the two renderers as a whole\<close>

lemma generate_languages_written:
  assumes "generate_languages s w = (Inr (), w')"
  shows "\<exists>tpl out m. read_text ''templates/languages.svg'' w = Inr tpl \<and>
           languages_substitutions s tpl = Inr out \<and>
           nodes w' ''generated/languages.svg'' = Some (File out m)"
  using assms
  by (auto simp: generate_languages_def bind_io_def generate_output_folder_def os_mkdir_def
        os_chmod_def print_def write_text_def
        split: sum.splits if_splits option.splits node.splits prod.splits)

lemma generate_overview_written:
  assumes "generate_overview s w = (Inr (), w')"
  shows "\<exists>tpl out m. read_text ''templates/overview.svg'' w = Inr tpl \<and>
           overview_substitutions s tpl = Inr out \<and>
           nodes w' ''generated/overview.svg'' = Some (File out m)"
  using assms
  by (auto simp: generate_overview_def bind_io_def generate_output_folder_def os_mkdir_def
        os_chmod_def print_def write_text_def
        split: sum.splits if_splits option.splits node.splits prod.splits)

lemma write_text_any:
  "fst (write_text d p t w) = Inr () \<Longrightarrow> fst (write_text d p t' w) = Inr ()"
  by (auto simp: write_text_def split: if_splits option.splits node.splits)

lemma generate_languages_succeeds:
  assumes "read_text ''templates/languages.svg'' w = Inr tpl"
    and "languages_substitutions s tpl = Inr out"
    and "generate_output_folder w = (Inr (), w1)"
    and "fst (write_text ''generated'' ''generated/languages.svg'' [] w1) = Inr ()"
  shows "fst (generate_languages s w) = Inr ()"
proof -
  from write_text_any [OF assms(4), of out]
  obtain w2 where "write_text ''generated'' ''generated/languages.svg'' out w1 = (Inr (), w2)"
    by (cases "write_text ''generated'' ''generated/languages.svg'' out w1") auto
  with assms(1-3) show ?thesis
    by (simp add: generate_languages_def bind_io_def print_def)
qed

lemma render_languages_concat:
  "render_languages i ys (p, l) =
     (p @ concat (map (\<lambda>(lang, data). progress_item (resolve_color data) data) ys),
      l @ concat (map (\<lambda>(k, lang, data). lang_list_item k lang (resolve_color data) data)
                   (enumerate i ys)))"
  by (induction i ys "(p, l)" arbitrary: p l rule: render_languages.induct)
     (simp_all add: Let_def)

lemma sublist_concat: "x \<in> set xs \<Longrightarrow> sublist x (concat xs)"
proof -
  assume "x \<in> set xs"
  then obtain a b where "xs = a @ x # b" by (auto dest: split_list)
  then have "concat xs = concat a @ x @ concat b" by simp
  then show ?thesis by (metis sublist_appendI)
qed

lemma render_languages_holds:
  assumes "render_languages 0 ys ([], []) = (p, l)" and "(lang, data) \<in> set ys"
  shows "\<exists>i<length ys. sublist (progress_item (resolve_color data) data) p \<and>
           sublist (lang_list_item i lang (resolve_color data) data) l"
proof -
  from assms(2) obtain i where i: "i < length ys" "ys ! i = (lang, data)"
    by (auto simp: in_set_conv_nth)
  then have e: "(i, lang, data) \<in> set (enumerate 0 ys)"
    by (auto simp: in_set_enumerate_eq)
  from assms(1) have p: "p = concat (map (\<lambda>(lang, data). progress_item (resolve_color data) data) ys)"
    and l: "l = concat (map (\<lambda>(k, lang, data). lang_list_item k lang (resolve_color data) data)
                   (enumerate 0 ys))"
    by (simp_all add: render_languages_concat)
  have "progress_item (resolve_color data) data \<in>
          set (map (\<lambda>(lang, data). progress_item (resolve_color data) data) ys)"
    using assms(2) by force
  then have 1: "sublist (progress_item (resolve_color data) data) p"
    unfolding p by (rule sublist_concat)
  have "lang_list_item i lang (resolve_color data) data \<in>
          set (map (\<lambda>(k, lang, data). lang_list_item k lang (resolve_color data) data)
                 (enumerate 0 ys))"
    using e by force
  then have 2: "sublist (lang_list_item i lang (resolve_color data) data) l"
    unfolding l by (rule sublist_concat)
  from i(1) 1 2 show ?thesis by blast
qed

lemma re_sub_Inr_iff:
  "re_sub pat repl s = Inr r \<longleftrightarrow>
     (\<exists>v. expand_template pat repl = Inr v \<and> r = replace_all pat v s)"
  by (auto simp: re_sub_def split: sum.splits)

lemma languages_substitutions_form:
  assumes "languages_substitutions s tpl = Inr out"
  shows "\<exists>ys p l p' l'.
           py_sorted_reverse (\<lambda>t. size_key (snd t)) (languages s) = Inr ys \<and>
           render_languages 0 ys ([], []) = (p, l) \<and>
           expand_template ''{{ progress }}'' p = Inr p' \<and>
           expand_template ''{{ lang_list }}'' l = Inr l' \<and>
           out = replace_all ''{{ lang_list }}'' l' (replace_all ''{{ progress }}'' p' tpl)"
proof -
  from assms obtain ys where
    ys: "py_sorted_reverse (\<lambda>t. size_key (snd t)) (languages s) = Inr ys"
    by (auto simp: languages_substitutions_def bind_err_Inr_iff)
  obtain p l where pl: "render_languages 0 ys ([], []) = (p, l)"
    by (cases "render_languages 0 ys ([], [])") auto
  from assms ys pl obtain r where r: "re_sub ''{{ progress }}'' p tpl = Inr r"
    and o: "re_sub ''{{ lang_list }}'' l r = Inr out"
    by (auto simp: languages_substitutions_def bind_err_Inr_iff)
  from r o ys pl show ?thesis
    unfolding re_sub_Inr_iff by blast
qed

lemma py_sorted_reverse_length: "py_sorted_reverse key xs = Inr ys \<Longrightarrow> length ys = length xs"
proof -
  have "sort_into key acc zs = Inr r \<Longrightarrow> length r = length acc + length zs" for acc zs r
  proof (induction zs arbitrary: acc)
    case Nil
    then show ?case by simp
  next
    case (Cons z zs)
    from Cons.prems obtain acc' where a: "insert_sorted key z acc = Inr acc'"
      and s: "sort_into key acc' zs = Inr r"
      by (auto simp: bind_err_Inr_iff)
    from Cons.IH [OF s] insert_sorted_set [OF a] show ?case by simp
  qed
  then show "py_sorted_reverse key xs = Inr ys \<Longrightarrow> length ys = length xs"
    by (auto simp: py_sorted_reverse_def bind_err_Inr_iff)
qed

lemma generate_languages_fragments:
  assumes run: "generate_languages s w = (Inr (), w')" and entry: "(lang, data) \<in> set (languages s)"
  shows "\<exists>tpl progress lang_list p' l' i m.
           read_text ''templates/languages.svg'' w = Inr tpl \<and>
           expand_template ''{{ progress }}'' progress = Inr p' \<and>
           expand_template ''{{ lang_list }}'' lang_list = Inr l' \<and>
           nodes w' ''generated/languages.svg'' =
             Some (File (replace_all ''{{ lang_list }}'' l'
                           (replace_all ''{{ progress }}'' p' tpl)) m) \<and>
           i < length (languages s) \<and>
           sublist (progress_item (resolve_color data) data) progress \<and>
           sublist (lang_list_item i lang (resolve_color data) data) lang_list"
proof -
  from generate_languages_written [OF run] obtain tpl out m where
    w: "read_text ''templates/languages.svg'' w = Inr tpl"
      "languages_substitutions s tpl = Inr out"
      "nodes w' ''generated/languages.svg'' = Some (File out m)"
    by blast
  from languages_substitutions_form [OF w(2)] obtain ys p l p' l' where
    f: "py_sorted_reverse (\<lambda>t. size_key (snd t)) (languages s) = Inr ys"
      "render_languages 0 ys ([], []) = (p, l)"
      "expand_template ''{{ progress }}'' p = Inr p'"
      "expand_template ''{{ lang_list }}'' l = Inr l'"
      "out = replace_all ''{{ lang_list }}'' l' (replace_all ''{{ progress }}'' p' tpl)"
    by blast
  from entry py_sorted_reverse_set [OF f(1)] have "(lang, data) \<in> set ys" by simp
  from render_languages_holds [OF f(2) this] py_sorted_reverse_length [OF f(1)]
  obtain i where "i < length (languages s)"
    "sublist (progress_item (resolve_color data) data) p"
    "sublist (lang_list_item i lang (resolve_color data) data) l"
    by auto
  with w f show ?thesis by blast
qed

lemma insert_sorted_map:
  assumes "\<And>t. key (g t) = key t"
  shows "insert_sorted key (g x) (map g ys) =
           bind_err (insert_sorted key x ys) (\<lambda>zs. Inr (map g zs))"
proof (induction ys)
  case Nil
  then show ?case by simp
next
  case (Cons y ys)
  show ?case
  proof (cases "py_lt (key x) (key y)")
    case (Inl e)
    then show ?thesis by (simp add: assms)
  next
    case (Inr b)
    with Cons show ?thesis
      by (cases "insert_sorted key x ys") (simp_all add: assms)
  qed
qed

lemma sort_into_map:
  assumes "\<And>t. key (g t) = key t"
  shows "sort_into key (map g acc) (map g xs) =
           bind_err (sort_into key acc xs) (\<lambda>zs. Inr (map g zs))"
proof (induction xs arbitrary: acc)
  case Nil
  then show ?case by simp
next
  case (Cons x xs)
  show ?case
  proof (cases "insert_sorted key x acc")
    case (Inl e)
    then show ?thesis by (simp add: insert_sorted_map [of key g, OF assms])
  next
    case (Inr acc')
    with Cons [of acc'] show ?thesis by (simp add: insert_sorted_map [of key g, OF assms])
  qed
qed

lemma py_sorted_reverse_map:
  assumes "\<And>t. key (g t) = key t"
  shows "py_sorted_reverse key (map g xs) =
           bind_err (py_sorted_reverse key xs) (\<lambda>ys. Inr (map g ys))"
proof -
  have "sort_into key [] (map g (rev xs)) =
          bind_err (sort_into key [] (rev xs)) (\<lambda>zs. Inr (map g zs))"
    using sort_into_map [of key g "[]" "rev xs", OF assms] by simp
  then show ?thesis
    by (cases "sort_into key [] (rev xs)") (simp_all add: py_sorted_reverse_def rev_map)
qed

lemma render_languages_map:
  assumes "\<And>d. resolve_color (h d) = resolve_color d"
    and "\<And>d. prop_or_default (h d) = prop_or_default d"
  shows "render_languages i (map (\<lambda>(lang, data). (lang, h data)) ys) (p, l) =
           render_languages i ys (p, l)"
  by (induction i ys "(p, l)" arbitrary: p l rule: render_languages.induct)
     (simp_all add: Let_def assms progress_item_def lang_list_item_def)

lemma languages_substitutions_map:
  assumes "\<And>d. resolve_color (h d) = resolve_color d"
    and "\<And>d. prop_or_default (h d) = prop_or_default d"
    and "\<And>d. size_key (h d) = size_key d"
  shows "languages_substitutions
           (s\<lparr>languages := map (\<lambda>(lang, data). (lang, h data)) (languages s)\<rparr>) tpl =
         languages_substitutions s tpl"
proof -
  have k: "size_key (snd ((\<lambda>(lang, data). (lang, h data)) t)) = size_key (snd t)" for t
    by (cases t) (simp add: assms(3))
  show ?thesis
    unfolding languages_substitutions_def
    by (cases "py_sorted_reverse (\<lambda>t. size_key (snd t)) (languages s)")
       (simp_all add: py_sorted_reverse_map [of "\<lambda>t. size_key (snd t)", OF k]
          render_languages_map [OF assms(1,2)])
qed

lemma with_default_prop_same:
  "resolve_color (with_default_prop d) = resolve_color d"
  "prop_or_default (with_default_prop d) = prop_or_default d"
  "size_key (with_default_prop d) = size_key d"
  by (simp_all add: with_default_prop_def resolve_color_def prop_or_default_def
        split: option.splits)

lemma with_default_color_same:
  "resolve_color (with_default_color d) = resolve_color d"
  "prop_or_default (with_default_color d) = prop_or_default d"
  "size_key (with_default_color d) = size_key d"
  by (simp_all add: with_default_color_def resolve_color_def prop_or_default_def
        split: option.splits)

lemma languages_substitutions_default_props:
  "languages_substitutions (with_default_props s) tpl = languages_substitutions s tpl"
  unfolding with_default_props_def
  by (rule languages_substitutions_map) (rule with_default_prop_same)+

lemma generate_languages_default_props:
  "generate_languages (with_default_props s) w = generate_languages s w"
  by (simp add: generate_languages_def languages_substitutions_default_props cong: sum.case_cong)

lemma languages_substitutions_default_colors:
  "languages_substitutions (with_default_colors s) tpl = languages_substitutions s tpl"
  unfolding with_default_colors_def
  by (rule languages_substitutions_map) (rule with_default_color_same)+

lemma generate_languages_default_colors:
  "generate_languages (with_default_colors s) w = generate_languages s w"
  by (simp add: generate_languages_def languages_substitutions_default_colors cong: sum.case_cong)

lemma no_backslash_format_fixed: "CHR 0x5C \<notin> set (format_fixed prec x)"
  using plain_text_format_fixed [of prec x] by (simp add: plain_text_def)

lemma no_backslash_py_str_nat: "CHR 0x5C \<notin> set (py_str_nat n)"
  using plain_text_py_str_nat [of n] by (simp add: plain_text_def)

lemma no_backslash_progress_item:
  "CHR 0x5C \<notin> set color \<Longrightarrow> CHR 0x5C \<notin> set (progress_item color data)"
  by (simp add: progress_item_def no_backslash_format_fixed)

lemma no_backslash_lang_list_item:
  "CHR 0x5C \<notin> set lang \<Longrightarrow> CHR 0x5C \<notin> set color \<Longrightarrow>
     CHR 0x5C \<notin> set (lang_list_item i lang color data)"
  by (simp add: lang_list_item_def no_backslash_format_fixed no_backslash_py_str_nat)

lemma render_languages_no_backslash:
  assumes "render_languages 0 ys ([], []) = (p, l)"
    and "\<forall>t\<in>set ys. CHR 0x5C \<notin> set (fst t) \<and> CHR 0x5C \<notin> set (resolve_color (snd t))"
  shows "CHR 0x5C \<notin> set p \<and> CHR 0x5C \<notin> set l"
proof -
  from assms(1) have p: "p = concat (map (\<lambda>(lang, data). progress_item (resolve_color data) data) ys)"
    and l: "l = concat (map (\<lambda>(k, lang, data). lang_list_item k lang (resolve_color data) data)
                   (enumerate 0 ys))"
    by (simp_all add: render_languages_concat)
  have "CHR 0x5C \<notin> set p"
  proof
    assume "CHR 0x5C \<in> set p"
    then obtain lang data where m: "(lang, data) \<in> set ys"
      and b: "CHR 0x5C \<in> set (progress_item (resolve_color data) data)"
      unfolding p by auto
    from m assms(2) have "CHR 0x5C \<notin> set (resolve_color data)" by auto
    from no_backslash_progress_item [OF this] b show False by simp
  qed
  moreover have "CHR 0x5C \<notin> set l"
  proof
    assume "CHR 0x5C \<in> set l"
    then obtain k lang data where "(k, lang, data) \<in> set (enumerate 0 ys)"
      and b: "CHR 0x5C \<in> set (lang_list_item k lang (resolve_color data) data)"
      unfolding l by auto
    then have "(lang, data) \<in> set ys"
      by (auto simp: in_set_enumerate_eq dest: nth_mem)
    with assms(2) have "CHR 0x5C \<notin> set lang" "CHR 0x5C \<notin> set (resolve_color data)"
      by auto
    from no_backslash_lang_list_item [OF this] b show False by simp
  qed
  ultimately show ?thesis by simp
qed

lemma languages_substitutions_succeeds:
  assumes "\<forall>t\<in>set (languages s). size_key (snd t) \<noteq> None \<and> CHR 0x5C \<notin> set (fst t) \<and>
             CHR 0x5C \<notin> set (resolve_color (snd t))"
  shows "\<exists>out. languages_substitutions s tpl = Inr out"
proof -
  from assms have "\<forall>t\<in>set (languages s). size_key (snd t) \<noteq> None" by simp
  from py_sorted_reverse_stable [OF this] obtain ys where
    ys: "py_sorted_reverse (\<lambda>t. size_key (snd t)) (languages s) = Inr ys"
    by blast
  obtain p l where pl: "render_languages 0 ys ([], []) = (p, l)"
    by (cases "render_languages 0 ys ([], [])") auto
  from py_sorted_reverse_set [OF ys] assms
  have "\<forall>t\<in>set ys. CHR 0x5C \<notin> set (fst t) \<and> CHR 0x5C \<notin> set (resolve_color (snd t))"
    by simp
  from render_languages_no_backslash [OF pl this] ys pl show ?thesis
    by (simp add: languages_substitutions_def re_sub_literal)
qed

lemma generate_languages_runs:
  assumes "read_text ''templates/languages.svg'' w = Inr tpl"
    and "\<forall>t\<in>set (languages s). size_key (snd t) \<noteq> None \<and> CHR 0x5C \<notin> set (fst t) \<and>
           CHR 0x5C \<notin> set (resolve_color (snd t))"
    and "generate_output_folder w = (Inr (), w1)"
    and "fst (write_text ''generated'' ''generated/languages.svg'' [] w1) = Inr ()"
  shows "fst (generate_languages s w) = Inr ()"
proof -
  from languages_substitutions_succeeds [OF assms(2)] obtain out where
    "languages_substitutions s tpl = Inr out" by blast
  from generate_languages_succeeds [OF assms(1) this assms(3,4)] show ?thesis .
qed

lemma progress_item_no_prop:
  "prop_key data = None \<Longrightarrow>
   progress_item color data =
     ''<span style=\"background-color: '' @ color @
     '';width: 0.000%;\" class=\"progress-item\"></span>''"
  by (simp add: progress_item_def prop_or_default_def format_fixed_3_zero)

lemma lang_list_item_no_prop:
  "prop_key data = None \<Longrightarrow>
   lang_list_item i lang color data =
     ''\<newline><li style=\"animation-delay: '' @ py_str_nat (i * 150) @ ''ms;\">\<newline>'' @
     ''<svg xmlns=\"http://www.w3.org/2000/svg\" class=\"octicon\" style=\"fill:'' @ color @
     '';\"\<newline>'' @
     ''viewBox=\"0 0 16 16\" version=\"1.1\" width=\"16\" height=\"16\"><path\<newline>'' @
     ''fill-rule=\"evenodd\" d=\"M8 4a4 4 0 100 8 4 4 0 000-8z\"></path></svg>\<newline>'' @
     ''<span class=\"lang\">'' @ lang @ ''</span>\<newline>'' @
     ''<span class=\"percent\">0.00%</span>\<newline>'' @
     ''</li>\<newline>\<newline>''"
  by (simp add: lang_list_item_def prop_or_default_def format_fixed_2_zero delay_between_def)

lemma resolve_color_missing:
  "color_key data = None \<or> color_key data = Some None \<Longrightarrow> resolve_color data = ''#000000''"
  by (auto simp: resolve_color_def)

lemma progress_item_text:
  "progress_item color data =
     ''<span style=\"background-color: '' @ color @ '';width: '' @
     format_fixed 3 (prop_or_default data) @ ''%;\" class=\"progress-item\"></span>''"
  by (simp add: progress_item_def)

lemma lang_list_item_text:
  "lang_list_item i lang color data =
     ''\<newline><li style=\"animation-delay: '' @ py_str_nat (i * 150) @ ''ms;\">\<newline>'' @
     ''<svg xmlns=\"http://www.w3.org/2000/svg\" class=\"octicon\" style=\"fill:'' @ color @
     '';\"\<newline>'' @
     ''viewBox=\"0 0 16 16\" version=\"1.1\" width=\"16\" height=\"16\"><path\<newline>'' @
     ''fill-rule=\"evenodd\" d=\"M8 4a4 4 0 100 8 4 4 0 000-8z\"></path></svg>\<newline>'' @
     ''<span class=\"lang\">'' @ lang @ ''</span>\<newline>'' @
     ''<span class=\"percent\">'' @ format_fixed 2 (prop_or_default data) @ ''%</span>\<newline>'' @
     ''</li>\<newline>\<newline>''"
  by (simp add: lang_list_item_def delay_between_def)

lemma generate_languages_type_error:
  assumes "2 \<le> length (languages s)"
    and "\<exists>t\<in>set (languages s). size_key (snd t) = None"
    and "read_text ''templates/languages.svg'' w = Inr output"
  shows "generate_languages s w = (Inl TypeError, w)"
  using py_sorted_reverse_missing_key [OF assms(1,2)] assms(3)
  by (simp add: generate_languages_def languages_substitutions_def)

section \<open>Substitution around a text that the pattern cannot touch\<close>

lemma prefix_append_cases:
  assumes "prefix t (a @ r)" and "\<not> prefix t a"
  shows "\<exists>t'. t = a @ t' \<and> t' \<noteq> [] \<and> prefix t' r"
proof -
  from assms(1) have "prefix t a \<or> (\<exists>t'. t = a @ t' \<and> prefix t' r)"
    by (auto simp: prefix_append)
  with assms(2) obtain t' where t: "t = a @ t'" "prefix t' r" by blast
  with assms(2) have "t' \<noteq> []" by auto
  with t show ?thesis by blast
qed

lemma replace_all_before:
  assumes "pat \<noteq> []"
    and "\<And>k. 0 < k \<Longrightarrow> k < length pat \<Longrightarrow> \<not> prefix (drop k pat) r"
  shows "replace_all pat rep (a @ r) = replace_all pat rep a @ replace_all pat rep r"
  using assms
proof (induction pat rep a rule: replace_all.induct)
  case (1 pat rep)
  then show ?case by simp
next
  case (2 pat rep c cs)
  note ne = "2.prems"(1) and c1 = "2.prems"(2)
  show ?case
  proof (cases "prefix pat (c # cs)")
    case True
    then have l: "length pat \<le> length (c # cs)" by (rule prefix_length_le)
    from True have p: "prefix pat ((c # cs) @ r)" by (rule prefix_prefix)
    from l have d: "drop (length pat) ((c # cs) @ r) = drop (length pat) (c # cs) @ r"
      using drop_append [of "length pat" "c # cs" r] by simp
    from "2.IH"(2) [OF ne True ne c1] have
      "replace_all pat rep (drop (length pat) (c # cs) @ r) =
         replace_all pat rep (drop (length pat) (c # cs)) @ replace_all pat rep r" .
    with True p d ne show ?thesis
      by (simp del: drop_append)
  next
    case False
    have np: "\<not> prefix pat ((c # cs) @ r)"
    proof
      assume "prefix pat ((c # cs) @ r)"
      from prefix_append_cases [OF this False] obtain t' where
        t: "pat = (c # cs) @ t'" "t' \<noteq> []" "prefix t' r" by blast
      then have "drop (length (c # cs)) pat = t'" by simp
      moreover from t have "0 < length (c # cs)" "length (c # cs) < length pat" by simp_all
      ultimately show False using c1 [of "length (c # cs)"] t(3) by simp
    qed
    from "2.IH"(3) [OF ne False ne c1] False np ne show ?thesis
      by simp
  qed
qed

lemma replace_all_through:
  assumes ne: "pat \<noteq> []"
    and c2: "\<And>j. j < length m \<Longrightarrow> \<not> prefix pat (drop j m) \<and> \<not> prefix (drop j m) pat"
  shows "replace_all pat rep (m @ b) = m @ replace_all pat rep b"
  using c2
proof (induction m)
  case Nil
  then show ?case by simp
next
  case (Cons c m)
  have np: "\<not> prefix pat ((c # m) @ b)"
  proof
    assume p: "prefix pat ((c # m) @ b)"
    from Cons.prems [of 0] have n: "\<not> prefix pat (c # m)" "\<not> prefix (c # m) pat" by simp_all
    from prefix_append_cases [OF p n(1)] obtain t' where "pat = (c # m) @ t'" by blast
    with n(2) show False by simp
  qed
  have "\<And>j. j < length m \<Longrightarrow> \<not> prefix pat (drop j m) \<and> \<not> prefix (drop j m) pat"
  proof -
    fix j assume "j < length m"
    then have "Suc j < length (c # m)" by simp
    from Cons.prems [OF this] show "\<not> prefix pat (drop j m) \<and> \<not> prefix (drop j m) pat"
      by simp
  qed
  from Cons.IH [OF this] np ne show ?case by simp
qed

lemma replace_all_apart:
  assumes "apart pat m"
  shows "replace_all pat rep (a @ m @ b) = replace_all pat rep a @ m @ replace_all pat rep b"
proof -
  from assms have ne: "pat \<noteq> []" by (simp add: apart_def)
  have c2: "\<not> prefix pat (drop j m) \<and> \<not> prefix (drop j m) pat" if "j < length m" for j
    using assms that by (simp add: apart_def list_all_iff)
  have c1: "\<not> prefix (drop k pat) (m @ b)" if k: "0 < k" "k < length pat" for k
  proof
    assume p: "prefix (drop k pat) (m @ b)"
    from assms k have n: "\<not> prefix (drop k pat) m" "\<not> prefix m (drop k pat)"
      by (simp_all add: apart_def list_all_iff)
    from prefix_append_cases [OF p n(1)] obtain t' where "drop k pat = m @ t'" by blast
    with n(2) show False by simp
  qed
  have "replace_all pat rep (a @ m @ b) = replace_all pat rep a @ replace_all pat rep (m @ b)"
    by (rule replace_all_before [OF ne c1])
  also have "replace_all pat rep (m @ b) = m @ replace_all pat rep b"
    by (rule replace_all_through [OF ne c2])
  finally show ?thesis .
qed

lemma replace_all_unbordered:
  assumes "unbordered pat"
  shows "replace_all pat rep (a @ pat @ b) = replace_all pat rep a @ rep @ replace_all pat rep b"
proof -
  from assms have ne: "pat \<noteq> []" by (simp add: unbordered_def)
  have c1: "\<not> prefix (drop k pat) (pat @ b)" if k: "0 < k" "k < length pat" for k
  proof
    assume p: "prefix (drop k pat) (pat @ b)"
    have "drop k pat \<noteq> pat @ us" for us
    proof
      assume "drop k pat = pat @ us"
      then have "length (drop k pat) = length (pat @ us)" by simp
      with k show False by simp
    qed
    with p have "prefix (drop k pat) pat"
      by (auto simp: prefix_append)
    with assms k show False by (simp add: unbordered_def list_all_iff)
  qed
  have "replace_all pat rep (a @ pat @ b) =
          replace_all pat rep a @ replace_all pat rep (pat @ b)"
    by (rule replace_all_before [OF ne c1])
  also from ne have "replace_all pat rep (pat @ b) = rep @ replace_all pat rep b"
    by (cases pat) simp_all
  finally show ?thesis .
qed

lemma apart_disjoint:
  assumes "pat \<noteq> []" and "m \<noteq> []" and "set pat \<inter> set m = {}"
  shows "apart pat m"
proof -
  have x: "\<not> prefix u v \<and> \<not> prefix v u"
    if "u \<noteq> []" "v \<noteq> []" "set u \<subseteq> set pat" "set v \<subseteq> set m" for u v
  proof -
    from that(1,2) obtain c u' d v' where uv: "u = c # u'" "v = d # v'"
      by (cases u; cases v) auto
    with that(3,4) assms(3) have "c \<noteq> d" by auto
    with uv show ?thesis by simp
  qed
  show ?thesis
    unfolding apart_def list_all_iff
  proof (intro conjI ballI)
    show "pat \<noteq> []" by (rule assms(1))
  next
    fix k assume "k \<in> set [1..<length pat]"
    then have "drop k pat \<noteq> []" by simp
    from x [OF this assms(2)] show "\<not> prefix (drop k pat) m"
      by (auto dest: in_set_dropD)
  next
    fix k assume "k \<in> set [1..<length pat]"
    then have "drop k pat \<noteq> []" by simp
    from x [OF this assms(2)] show "\<not> prefix m (drop k pat)"
      by (auto dest: in_set_dropD)
  next
    fix j assume "j \<in> set [0..<length m]"
    then have "drop j m \<noteq> []" by simp
    from x [OF assms(1) this] show "\<not> prefix pat (drop j m)"
      by (auto dest: in_set_dropD)
  next
    fix j assume "j \<in> set [0..<length m]"
    then have "drop j m \<noteq> []" by simp
    from x [OF assms(1) this] show "\<not> prefix (drop j m) pat"
      by (auto dest: in_set_dropD)
  qed
qed

lemma apart_name: "apart ''{{ name }}'' ''{{ lines_changed }}''"
  by (simp add: apart_def)

lemma apart_stars: "apart ''{{ stars }}'' ''{{ lines_changed }}''"
  by (simp add: apart_def)

lemma apart_forks: "apart ''{{ forks }}'' ''{{ lines_changed }}''"
  by (simp add: apart_def)

lemma apart_contributions: "apart ''{{ contributions }}'' ''{{ lines_changed }}''"
  by (simp add: apart_def)

lemma unbordered_lines_changed: "unbordered ''{{ lines_changed }}''"
  by (simp add: unbordered_def)

lemma apart_number:
  assumes "T \<noteq> []" and "\<forall>c\<in>set T. \<not> is_digit c \<and> c \<noteq> CHR '','' \<and> c \<noteq> CHR ''-''"
  shows "apart T (format_thousands n)"
proof (rule apart_disjoint [OF assms(1) format_thousands_nonempty])
  show "set T \<inter> set (format_thousands n) = {}"
    using assms(2) format_thousands_chars [of _ n] by blast
qed

lemma apart_views_number: "apart ''{{ views }}'' (format_thousands n)"
  by (rule apart_number) (simp_all add: is_digit_def)

lemma apart_repos_number: "apart ''{{ repos }}'' (format_thousands n)"
  by (rule apart_number) (simp_all add: is_digit_def)

lemma overview_substitutions_chain:
  assumes "expand_template ''{{ name }}'' (name s) = Inr v"
  shows "overview_substitutions s x =
    Inr (replace_all ''{{ repos }}'' (format_thousands (int (length (repos s))))
       (replace_all ''{{ views }}'' (format_thousands (views s))
         (replace_all ''{{ lines_changed }}''
            (format_thousands (fst (lines_changed s) + snd (lines_changed s)))
           (replace_all ''{{ contributions }}'' (format_thousands (total_contributions s))
             (replace_all ''{{ forks }}'' (format_thousands (forks s))
               (replace_all ''{{ stars }}'' (format_thousands (stargazers s))
                 (replace_all ''{{ name }}'' v x)))))))"
  using assms
  by (simp add: overview_substitutions_def re_sub_number Let_def re_sub_def [of "''{{ name }}''"])

lemma overview_lines_changed_split:
  assumes "overview_substitutions s (pre @ ''{{ lines_changed }}'' @ post) = Inr out"
  shows "\<exists>a b. overview_substitutions s pre = Inr a \<and> overview_substitutions s post = Inr b \<and>
           out = a @ format_thousands (fst (lines_changed s) + snd (lines_changed s)) @ b"
proof -
  define LC where "LC = ''{{ lines_changed }}''"
  define N where "N = format_thousands (fst (lines_changed s) + snd (lines_changed s))"
  define F where "F = (\<lambda>v x.
     replace_all ''{{ repos }}'' (format_thousands (int (length (repos s))))
       (replace_all ''{{ views }}'' (format_thousands (views s))
         (replace_all LC N
           (replace_all ''{{ contributions }}'' (format_thousands (total_contributions s))
             (replace_all ''{{ forks }}'' (format_thousands (forks s))
               (replace_all ''{{ stars }}'' (format_thousands (stargazers s))
                 (replace_all ''{{ name }}'' v x)))))))"
  from overview_substitutions_form [OF assms] obtain v where
    v: "expand_template ''{{ name }}'' (name s) = Inr v" by blast
  have c: "overview_substitutions s x = Inr (F v x)" for x
    unfolding F_def LC_def N_def by (rule overview_substitutions_chain [OF v])
  have a: "apart ''{{ name }}'' LC" "apart ''{{ stars }}'' LC" "apart ''{{ forks }}'' LC"
    "apart ''{{ contributions }}'' LC" "unbordered LC"
    unfolding LC_def
    by (rule apart_name apart_stars apart_forks apart_contributions unbordered_lines_changed)+
  have n: "apart ''{{ views }}'' N" "apart ''{{ repos }}'' N"
    unfolding N_def by (rule apart_views_number apart_repos_number)+
  have "F v (pre @ LC @ post) = F v pre @ N @ F v post"
    unfolding F_def
    by (simp only: replace_all_apart [OF a(1)] replace_all_apart [OF a(2)]
          replace_all_apart [OF a(3)] replace_all_apart [OF a(4)] replace_all_unbordered [OF a(5)]
          replace_all_apart [OF n(1)] replace_all_apart [OF n(2)])
  moreover from assms c [of "pre @ LC @ post"] have "out = F v (pre @ LC @ post)"
    by (simp add: LC_def)
  ultimately have "out = F v pre @ N @ F v post" by simp
  with c [of pre] c [of post] show ?thesis
    unfolding N_def by blast
qed

lemma read_text_world_badges:
  "read_text ''templates/overview.svg'' world_badges =
     Inr ((''<svg><style>text { fill: #333; }</style><text>{{ name }}: {{ stars }} stars, '') @
          ''{{ lines_changed }}'' @ '' lines, {{ repos }} repos</text></svg>'')"
  by (simp add: read_text_def world_badges_def os_access_def R_OK_def)

lemma format_thousands_small:
  "format_thousands 1200 = ''1,200''" "format_thousands 2 = ''2''"
  "format_thousands 3 = ''3''" "format_thousands 4500 = ''4,500''" "format_thousands 5 = ''5''"
  by (simp_all add: format_thousands_def py_str_nat.simps digit_char_def)

lemma overview_substitutions_stats_small:
  "overview_substitutions stats_small
     ''<svg><style>text { fill: #333; }</style><text>{{ name }}: {{ stars }} stars, '' =
   Inr ''<svg><style>text { fill: #333; }</style><text>octocat: 1,200 stars, ''"
  "overview_substitutions stats_small '' lines, {{ repos }} repos</text></svg>'' =
   Inr '' lines, 2 repos</text></svg>''"
proof -
  have v: "expand_template ''{{ name }}'' (name stats_small) = Inr ''octocat''"
    by (simp add: stats_small_def)
  show "overview_substitutions stats_small
     ''<svg><style>text { fill: #333; }</style><text>{{ name }}: {{ stars }} stars, '' =
   Inr ''<svg><style>text { fill: #333; }</style><text>octocat: 1,200 stars, ''"
    unfolding overview_substitutions_chain [OF v]
    by (simp add: stats_small_def format_thousands_small format_thousands_example)
  show "overview_substitutions stats_small '' lines, {{ repos }} repos</text></svg>'' =
   Inr '' lines, 2 repos</text></svg>''"
    unfolding overview_substitutions_chain [OF v]
    by (simp add: stats_small_def format_thousands_small format_thousands_example)
qed

lemma overview_substitutions_badges:
  "overview_substitutions stats_small
     (''<svg><style>text { fill: #333; }</style><text>{{ name }}: {{ stars }} stars, '' @
      ''{{ lines_changed }}'' @ '' lines, {{ repos }} repos</text></svg>'') =
   Inr (''<svg><style>text { fill: #333; }</style><text>octocat: 1,200 stars, '' @
        ''1,234,567'' @ '' lines, 2 repos</text></svg>'')"
proof -
  have v: "expand_template ''{{ name }}'' (name stats_small) = Inr ''octocat''"
    by (simp add: stats_small_def)
  show ?thesis
    unfolding overview_substitutions_chain [OF v]
    by (simp add: stats_small_def format_thousands_small format_thousands_example)
qed

lemma generate_overview_world_badges:
  "generate_overview stats_small world_badges =
     (Inr (),
      world_badges\<lparr>nodes := (nodes world_badges)(''generated/overview.svg'' \<mapsto>
         File (''<svg><style>text { fill: #333; }</style><text>octocat: 1,200 stars, '' @
               ''1,234,567'' @ '' lines, 2 repos</text></svg>'') 420),
        stdout := [''Directory already exists: generated'',
                   ''Generated file: generated/overview.svg'']\<rparr>)"
  unfolding generate_overview_def read_text_world_badges sum.case overview_substitutions_badges
  by (simp add: bind_io_def generate_output_folder_def os_path_isdir_def world_badges_def
        print_def write_text_def os_access_def W_OK_def)










lemma read_languages_world_badges:
  "read_text ''templates/languages.svg'' world_badges =
     Inr ''<svg>{{ progress }}<ul>{{ lang_list }}</ul></svg>''"
  by (simp add: read_text_def world_badges_def os_access_def R_OK_def)

lemma generate_output_folder_world_badges:
  "generate_output_folder world_badges =
     (Inr (), world_badges\<lparr>stdout := [''Directory already exists: generated'']\<rparr>)"
  by (simp add: generate_output_folder_def world_badges_def os_path_isdir_def print_def)

lemma write_languages_world_badges:
  "write_text ''generated'' ''generated/languages.svg'' text
     (world_badges\<lparr>stdout := out\<rparr>) =
     (Inr (), world_badges\<lparr>nodes := (nodes world_badges)(''generated/languages.svg'' \<mapsto>
        File text 420), stdout := out\<rparr>)"
  by (simp add: write_text_def world_badges_def os_path_isdir_def os_access_def W_OK_def)

lemma languages_substitutions_badges_one:
  "languages_substitutions stats_one ''<svg>{{ progress }}<ul>{{ lang_list }}</ul></svg>'' =
     Inr (''<svg><span style=\"background-color: #000000;width: 0.000%;\" '' @
      ''class=\"progress-item\"></span><ul>'' @
      ''\<newline><li style=\"animation-delay: 0ms;\">\<newline>'' @
      ''<svg xmlns=\"http://www.w3.org/2000/svg\" class=\"octicon\" style=\"fill:#000000;\"\<newline>'' @
      ''viewBox=\"0 0 16 16\" version=\"1.1\" width=\"16\" height=\"16\"><path\<newline>'' @
      ''fill-rule=\"evenodd\" d=\"M8 4a4 4 0 100 8 4 4 0 000-8z\"></path></svg>\<newline>'' @
      ''<span class=\"lang\">Go</span>\<newline>'' @
      ''<span class=\"percent\">0.00%</span>\<newline>'' @
      ''</li>\<newline>\<newline></ul></svg>'')"
  by (simp add: languages_substitutions_def stats_one_def py_sorted_reverse_def
        progress_item_no_prop lang_list_item_no_prop resolve_color_def py_str_nat_0
        re_sub_literal)

lemma languages_substitutions_badges_null:
  "languages_substitutions stats_null_one ''<svg>{{ progress }}<ul>{{ lang_list }}</ul></svg>'' =
     Inr (''<svg><span style=\"background-color: #000000;width: 0.500%;\" '' @
      ''class=\"progress-item\"></span><ul>'' @
      ''\<newline><li style=\"animation-delay: 0ms;\">\<newline>'' @
      ''<svg xmlns=\"http://www.w3.org/2000/svg\" class=\"octicon\" style=\"fill:#000000;\"\<newline>'' @
      ''viewBox=\"0 0 16 16\" version=\"1.1\" width=\"16\" height=\"16\"><path\<newline>'' @
      ''fill-rule=\"evenodd\" d=\"M8 4a4 4 0 100 8 4 4 0 000-8z\"></path></svg>\<newline>'' @
      ''<span class=\"lang\">Go</span>\<newline>'' @
      ''<span class=\"percent\">0.50%</span>\<newline>'' @
      ''</li>\<newline>\<newline></ul></svg>'')"
  by (simp add: languages_substitutions_def stats_null_one_def data_null_color_def
        py_sorted_reverse_def progress_item_text lang_list_item_text prop_or_default_def
        format_fixed_half_3 format_fixed_half_2 resolve_color_def py_str_nat_0 re_sub_literal)

lemma generate_languages_badges_one:
  "generate_languages stats_one world_badges =
     (Inr (),
      world_badges\<lparr>nodes := (nodes world_badges)(''generated/languages.svg'' \<mapsto>
         File (''<svg><span style=\"background-color: #000000;width: 0.000%;\" '' @
      ''class=\"progress-item\"></span><ul>'' @
      ''\<newline><li style=\"animation-delay: 0ms;\">\<newline>'' @
      ''<svg xmlns=\"http://www.w3.org/2000/svg\" class=\"octicon\" style=\"fill:#000000;\"\<newline>'' @
      ''viewBox=\"0 0 16 16\" version=\"1.1\" width=\"16\" height=\"16\"><path\<newline>'' @
      ''fill-rule=\"evenodd\" d=\"M8 4a4 4 0 100 8 4 4 0 000-8z\"></path></svg>\<newline>'' @
      ''<span class=\"lang\">Go</span>\<newline>'' @
      ''<span class=\"percent\">0.00%</span>\<newline>'' @
      ''</li>\<newline>\<newline></ul></svg>'') 420),
        stdout := [''Directory already exists: generated'',
                   ''Generated file: generated/languages.svg'']\<rparr>)"
  unfolding generate_languages_def read_languages_world_badges sum.case
    languages_substitutions_badges_one
  by (simp add: bind_io_def generate_output_folder_world_badges write_languages_world_badges
        print_def)

lemma generate_languages_badges_null:
  "generate_languages stats_null_one world_badges =
     (Inr (),
      world_badges\<lparr>nodes := (nodes world_badges)(''generated/languages.svg'' \<mapsto>
         File (''<svg><span style=\"background-color: #000000;width: 0.500%;\" '' @
      ''class=\"progress-item\"></span><ul>'' @
      ''\<newline><li style=\"animation-delay: 0ms;\">\<newline>'' @
      ''<svg xmlns=\"http://www.w3.org/2000/svg\" class=\"octicon\" style=\"fill:#000000;\"\<newline>'' @
      ''viewBox=\"0 0 16 16\" version=\"1.1\" width=\"16\" height=\"16\"><path\<newline>'' @
      ''fill-rule=\"evenodd\" d=\"M8 4a4 4 0 100 8 4 4 0 000-8z\"></path></svg>\<newline>'' @
      ''<span class=\"lang\">Go</span>\<newline>'' @
      ''<span class=\"percent\">0.50%</span>\<newline>'' @
      ''</li>\<newline>\<newline></ul></svg>'') 420),
        stdout := [''Directory already exists: generated'',
                   ''Generated file: generated/languages.svg'']\<rparr>)"
  unfolding generate_languages_def read_languages_world_badges sum.case
    languages_substitutions_badges_null
  by (simp add: bind_io_def generate_output_folder_world_badges write_languages_world_badges
        print_def)

section \<open>C1: the exclude-forked-repos flag\<close>

text \<open>
  C1 (as the code has it). The flag computed by \<^verbatim>\<open>main\<close> is true if and only if
  \<^verbatim>\<open>EXCLUDE_FORKED_REPOS\<close> is set, non-empty, and its value with leading and trailing
  whitespace stripped is not a letter-case spelling of \<^verbatim>\<open>false\<close>. The value is
  stripped before it is compared, so a whitespace-padded \<^verbatim>\<open>" false "\<close> gives false
  and a value of whitespace only gives true.
\<close>

theorem ignore_forked_repos_iff:
  "ignore_forked_repos_of (env ''EXCLUDE_FORKED_REPOS'') \<longleftrightarrow>
     (\<exists>v. env ''EXCLUDE_FORKED_REPOS'' = Some v \<and> v \<noteq> [] \<and>
          \<not> spelling_of_false (py_strip v))"
  by (cases "env ''EXCLUDE_FORKED_REPOS''")
     (simp_all add: ignore_forked_repos_of_def truthy_def py_lower_false_iff)

theorem ignore_forked_repos_iff_witness:
  "ignore_forked_repos_of ((Map.empty(''EXCLUDE_FORKED_REPOS'' \<mapsto> ''yes'')) ''EXCLUDE_FORKED_REPOS'')
   \<and> \<not> spelling_of_false (py_strip ''yes'')"
  using ignore_forked_repos_iff [of "Map.empty(''EXCLUDE_FORKED_REPOS'' \<mapsto> ''yes'')"]
  by (simp add: spelling_of_false_def py_strip_def py_isspace_def)

text \<open>
  The claim as written fails at the padded value \<^verbatim>\<open>" false "\<close>: it is set, non-empty
  and not itself a spelling of \<^verbatim>\<open>false\<close>, yet the flag is false.
\<close>

theorem ignore_forked_repos_padded_counterexample:
  "'' false '' \<noteq> [] \<and> \<not> spelling_of_false '' false '' \<and>
   \<not> ignore_forked_repos_of (Some '' false '')"
  by (simp add: spelling_of_false_def ignore_forked_repos_of_def truthy_def
        py_strip_def py_isspace_def py_lower_def py_lower_char_def char_of_def bit_Suc_0_iff)

section \<open>C2: the output directory\<close>

text \<open>
  C2 (as the code has it). After \<^verbatim>\<open>generate_output_folder\<close> returns normally the
  directory \<^verbatim>\<open>generated\<close> exists; it has mode 777 when the call created it, and when
  it existed already the filesystem is left as it was, whatever the directory's mode.
  A second call after a first one succeeds and changes nothing on the filesystem.
\<close>

theorem generate_output_folder_ensures:
  "generate_output_folder w = (Inr (), w') \<Longrightarrow>
     os_path_isdir w' ''generated'' \<and>
     (\<not> os_path_isdir w ''generated'' \<longrightarrow> nodes w' ''generated'' = Some (Dir 511)) \<and>
     (os_path_isdir w ''generated'' \<longrightarrow> nodes w' = nodes w) \<and>
     fst (generate_output_folder w') = Inr () \<and>
     nodes (snd (generate_output_folder w')) = nodes w'"
  by (auto simp: generate_output_folder_def bind_io_def os_mkdir_def os_chmod_def print_def
        os_path_isdir_def split: if_splits option.splits node.splits prod.splits sum.splits)

theorem generate_output_folder_ensures_witness:
  "generate_output_folder world_ready = (Inr (), world_made) \<and>
   \<not> os_path_isdir world_ready ''generated'' \<and>
   os_path_isdir world_made ''generated'' \<and>
   nodes world_made ''generated'' = Some (Dir 511) \<and>
   fst (generate_output_folder world_made) = Inr () \<and>
   nodes (snd (generate_output_folder world_made)) = nodes world_made"
proof -
  have absent: "\<not> os_path_isdir world_ready ''generated''"
    by (simp add: world_ready_def os_path_isdir_def)
  from generate_output_folder_ensures [OF generate_output_folder_world_ready] absent
  show ?thesis
    by (simp add: generate_output_folder_world_ready)
qed

text \<open>
  The claim as written fails where the directory exists with another mode: the call
  returns normally and the mode stays 0o755 = 493, not 0o777 = 511.
\<close>

theorem generate_output_folder_mode_counterexample:
  "generate_output_folder world_kept =
     (Inr (), world_kept\<lparr>stdout := [''Directory already exists: generated'']\<rparr>) \<and>
   nodes (world_kept\<lparr>stdout := [''Directory already exists: generated'']\<rparr>) ''generated''
     = Some (Dir 493) \<and> (493 :: nat) \<noteq> 511"
  by (simp add: generate_output_folder_def world_kept_def os_path_isdir_def print_def)

section \<open>C8: missing configuration is fatal before any output or network activity\<close>

text \<open>
  C8. If \<^verbatim>\<open>ACCESS_TOKEN\<close> or \<^verbatim>\<open>GITHUB_ACTOR\<close> is not in the environment, \<^verbatim>\<open>main\<close> ends
  with an error; no session has been opened and no \<^verbatim>\<open>Stats\<close> constructed, the
  renderers are never entered (the outcome does not depend on them), and no path other
  than the directory \<^verbatim>\<open>generated\<close> itself has changed, so no output file is written.
\<close>

theorem main_missing_config_fatal:
  assumes "env ''ACCESS_TOKEN'' = None \<or> env ''GITHUB_ACTOR'' = None"
    and "main env gather w = (r, w')"
  shows "(\<exists>e. r = Inl e) \<and> main env gather' w = (r, w') \<and>
         sessions_opened w' = sessions_opened w \<and> providers w' = providers w \<and>
         (\<forall>p. p \<noteq> ''generated'' \<longrightarrow> nodes w' p = nodes w p)"
proof -
  obtain e where e: "main env gather w = (Inl e, snd (generate_output_folder w))"
    using main_missing_config [OF assms(1)] by blast
  have w': "w' = snd (generate_output_folder w)" and r: "r = Inl e"
    using e assms(2) by simp_all
  have "generate_output_folder w = (fst (generate_output_folder w), w')"
    using w' by simp
  from generate_output_folder_keeps [OF this] r
    main_missing_config_same [OF assms(1), of gather' w gather] assms(2)
  show ?thesis
    by simp
qed

theorem main_missing_config_fatal_witness:
  "main Map.empty gather_nothing world_ready =
     (Inl (Exception ''A personal access token is required to proceed!''), world_made) \<and>
   main Map.empty gather_raise world_ready =
     (Inl (Exception ''A personal access token is required to proceed!''), world_made) \<and>
   sessions_opened world_made = sessions_opened world_ready \<and>
   providers world_made = providers world_ready \<and>
   nodes world_made ''generated/overview.svg'' = nodes world_ready ''generated/overview.svg''"
  using main_missing_config_fatal [where env = Map.empty and gather = gather_nothing
      and gather' = gather_raise, OF _ main_world_ready_no_token]
  by (simp add: main_world_ready_no_token)

section \<open>C10: empty credentials\<close>

text \<open>
  C10. Once the output directory and the permission checks are in order, \<^verbatim>\<open>main\<close>
  raises the same missing-token \<^verbatim>\<open>Exception\<close> for \<^verbatim>\<open>ACCESS_TOKEN\<close> set to the empty
  string as for \<^verbatim>\<open>ACCESS_TOKEN\<close> unset. With a non-empty token, an unset
  \<^verbatim>\<open>GITHUB_ACTOR\<close> raises \<^verbatim>\<open>RuntimeError\<close>, while \<^verbatim>\<open>GITHUB_ACTOR\<close> set to the empty
  string is accepted: a session is opened and \<^verbatim>\<open>Stats\<close> is constructed with the empty
  user name.
\<close>

theorem main_empty_credentials:
  assumes "generate_output_folder w = (Inr (), w1)" and "check_permissions w1 = Inr ()"
  shows "main (env(''ACCESS_TOKEN'' \<mapsto> [])) gather w =
           (Inl (Exception ''A personal access token is required to proceed!''), w1) \<and>
         main (env(''ACCESS_TOKEN'' := None)) gather w =
           (Inl (Exception ''A personal access token is required to proceed!''), w1) \<and>
         (env ''ACCESS_TOKEN'' = Some token \<and> token \<noteq> [] \<longrightarrow>
            main (env(''GITHUB_ACTOR'' := None)) gather w =
              (Inl (RuntimeError ''Environment variable GITHUB_ACTOR must be set.''), w1) \<and>
            main (env(''GITHUB_ACTOR'' \<mapsto> [])) gather w =
              (let s = \<lparr>stats_user = [], stats_access_token = token,
                        stats_exclude_repos = excluded_set (env ''EXCLUDED''),
                        stats_exclude_langs = excluded_set (env ''EXCLUDED_LANGS''),
                        stats_ignore_forked_repos =
                          ignore_forked_repos_of (env ''EXCLUDE_FORKED_REPOS'')\<rparr>
               in gather s (w1\<lparr>sessions_opened := sessions_opened w1 + 1,
                               providers := providers w1 @ [s]\<rparr>)))"
  using assms
  by (auto simp: main_def bind_io_def Let_def split: sum.splits option.splits)

theorem main_empty_credentials_witness:
  "main [''ACCESS_TOKEN'' \<mapsto> [], ''GITHUB_ACTOR'' \<mapsto> ''octocat''] gather_nothing world_ready =
     (Inl (Exception ''A personal access token is required to proceed!''), world_made) \<and>
   main [''ACCESS_TOKEN'' \<mapsto> ''t0ken'', ''GITHUB_ACTOR'' \<mapsto> []] gather_nothing world_ready =
     (Inr (), world_made\<lparr>sessions_opened := 1,
        providers := [\<lparr>stats_user = [], stats_access_token = ''t0ken'',
                        stats_exclude_repos = None, stats_exclude_langs = None,
                        stats_ignore_forked_repos = False\<rparr>]\<rparr>)"
  using main_empty_credentials [OF generate_output_folder_world_ready check_permissions_world_made,
      where env = "[''ACCESS_TOKEN'' \<mapsto> ''t0ken'', ''GITHUB_ACTOR'' \<mapsto> ''octocat'']"
      and token = "''t0ken''" and gather = gather_nothing]
  by (simp add: fun_upd_twist gather_nothing_def excluded_set_def truthy_def ignore_forked_repos_of_def
       world_made_def world_ready_def)

section \<open>C5: a language without \<^verbatim>\<open>prop\<close>\<close>

text \<open>
  C5 (as the code has it). For a language entry of the snapshot whose data has no
  \<^verbatim>\<open>prop\<close> key, \<^verbatim>\<open>generate_languages\<close> behaves exactly as on the snapshot in which the
  proportion 0 is written out: the missing key is never the cause of a failure. Whenever
  the run completes, the text substituted for \<^verbatim>\<open>{{ progress }}\<close> in the written file
  holds the entry's segment with \<^verbatim>\<open>width: 0.000%\<close>, and the text substituted for
  \<^verbatim>\<open>{{ lang_list }}\<close> holds the entry's list item showing \<^verbatim>\<open>0.00%\<close>. The run completes
  when the template can be read, every entry has a size, no language name and no colour
  holds a backslash, and the output directory and file can be written.
\<close>

theorem missing_prop_renders_zero:
  assumes "(lang, data) \<in> set (languages s)" and "prop_key data = None"
  shows "generate_languages s w = generate_languages (with_default_props s) w \<and>
    (\<forall>w'. generate_languages s w = (Inr (), w') \<longrightarrow>
       (\<exists>tpl progress lang_list p' l' i m.
          read_text ''templates/languages.svg'' w = Inr tpl \<and>
          expand_template ''{{ progress }}'' progress = Inr p' \<and>
          expand_template ''{{ lang_list }}'' lang_list = Inr l' \<and>
          nodes w' ''generated/languages.svg'' =
            Some (File (replace_all ''{{ lang_list }}'' l'
                          (replace_all ''{{ progress }}'' p' tpl)) m) \<and>
          i < length (languages s) \<and>
          sublist
            (''<span style=\"background-color: '' @ resolve_color data @
             '';width: 0.000%;\" class=\"progress-item\"></span>'') progress \<and>
          sublist
            (''\<newline><li style=\"animation-delay: '' @ py_str_nat (i * 150) @ ''ms;\">\<newline>'' @
             ''<svg xmlns=\"http://www.w3.org/2000/svg\" class=\"octicon\" style=\"fill:'' @
             resolve_color data @ '';\"\<newline>'' @
             ''viewBox=\"0 0 16 16\" version=\"1.1\" width=\"16\" height=\"16\"><path\<newline>'' @
             ''fill-rule=\"evenodd\" d=\"M8 4a4 4 0 100 8 4 4 0 000-8z\"></path></svg>\<newline>'' @
             ''<span class=\"lang\">'' @ lang @ ''</span>\<newline>'' @
             ''<span class=\"percent\">0.00%</span>\<newline>'' @
             ''</li>\<newline>\<newline>'') lang_list)) \<and>
    ((\<exists>tpl. read_text ''templates/languages.svg'' w = Inr tpl) \<and>
     (\<forall>t\<in>set (languages s). size_key (snd t) \<noteq> None \<and> CHR 0x5C \<notin> set (fst t) \<and>
        CHR 0x5C \<notin> set (resolve_color (snd t))) \<and>
     (\<exists>w1. generate_output_folder w = (Inr (), w1) \<and>
        fst (write_text ''generated'' ''generated/languages.svg'' [] w1) = Inr ()) \<longrightarrow>
     fst (generate_languages s w) = Inr ())"
proof (intro conjI allI impI)
  show "generate_languages s w = generate_languages (with_default_props s) w"
    by (simp add: generate_languages_default_props)
next
  fix w'
  assume "generate_languages s w = (Inr (), w')"
  from generate_languages_fragments [OF this assms(1)]
  show "\<exists>tpl progress lang_list p' l' i m.
          read_text ''templates/languages.svg'' w = Inr tpl \<and>
          expand_template ''{{ progress }}'' progress = Inr p' \<and>
          expand_template ''{{ lang_list }}'' lang_list = Inr l' \<and>
          nodes w' ''generated/languages.svg'' =
            Some (File (replace_all ''{{ lang_list }}'' l'
                          (replace_all ''{{ progress }}'' p' tpl)) m) \<and>
          i < length (languages s) \<and>
          sublist
            (''<span style=\"background-color: '' @ resolve_color data @
             '';width: 0.000%;\" class=\"progress-item\"></span>'') progress \<and>
          sublist
            (''\<newline><li style=\"animation-delay: '' @ py_str_nat (i * 150) @ ''ms;\">\<newline>'' @
             ''<svg xmlns=\"http://www.w3.org/2000/svg\" class=\"octicon\" style=\"fill:'' @
             resolve_color data @ '';\"\<newline>'' @
             ''viewBox=\"0 0 16 16\" version=\"1.1\" width=\"16\" height=\"16\"><path\<newline>'' @
             ''fill-rule=\"evenodd\" d=\"M8 4a4 4 0 100 8 4 4 0 000-8z\"></path></svg>\<newline>'' @
             ''<span class=\"lang\">'' @ lang @ ''</span>\<newline>'' @
             ''<span class=\"percent\">0.00%</span>\<newline>'' @
             ''</li>\<newline>\<newline>'') lang_list"
    unfolding progress_item_no_prop [OF assms(2)] lang_list_item_no_prop [OF assms(2)] .
next
  assume a: "(\<exists>tpl. read_text ''templates/languages.svg'' w = Inr tpl) \<and>
     (\<forall>t\<in>set (languages s). size_key (snd t) \<noteq> None \<and> CHR 0x5C \<notin> set (fst t) \<and>
        CHR 0x5C \<notin> set (resolve_color (snd t))) \<and>
     (\<exists>w1. generate_output_folder w = (Inr (), w1) \<and>
        fst (write_text ''generated'' ''generated/languages.svg'' [] w1) = Inr ())"
  then obtain tpl w1 where "read_text ''templates/languages.svg'' w = Inr tpl"
    and "generate_output_folder w = (Inr (), w1)"
    and "fst (write_text ''generated'' ''generated/languages.svg'' [] w1) = Inr ()"
    by blast
  with a show "fst (generate_languages s w) = Inr ()"
    by (intro generate_languages_runs) simp_all
qed

theorem missing_prop_renders_zero_witness:
  "(''Go'', data_bare) \<in> set (languages stats_one) \<and>
   prop_key data_bare = None \<and>
   generate_languages stats_one world_badges =
     generate_languages (with_default_props stats_one) world_badges \<and>
   fst (generate_languages stats_one world_badges) = Inr () \<and>
   nodes (snd (generate_languages stats_one world_badges)) ''generated/languages.svg'' =
     Some (File
      (''<svg><span style=\"background-color: #000000;width: 0.000%;\" '' @
       ''class=\"progress-item\"></span><ul>'' @
       ''\<newline><li style=\"animation-delay: 0ms;\">\<newline>'' @
       ''<svg xmlns=\"http://www.w3.org/2000/svg\" class=\"octicon\" style=\"fill:#000000;\"\<newline>'' @
       ''viewBox=\"0 0 16 16\" version=\"1.1\" width=\"16\" height=\"16\"><path\<newline>'' @
       ''fill-rule=\"evenodd\" d=\"M8 4a4 4 0 100 8 4 4 0 000-8z\"></path></svg>\<newline>'' @
       ''<span class=\"lang\">Go</span>\<newline>'' @
       ''<span class=\"percent\">0.00%</span>\<newline>'' @
       ''</li>\<newline>\<newline></ul></svg>'') 420)"
proof -
  have e: "(''Go'', data_bare) \<in> set (languages stats_one)"
    by (simp add: stats_one_def data_bare_def)
  have c: "prop_key data_bare = None"
    by (simp add: data_bare_def)
  note t = missing_prop_renders_zero [OF e c, of world_badges]
  have r: "\<exists>tpl. read_text ''templates/languages.svg'' world_badges = Inr tpl"
    using read_languages_world_badges by blast
  have k: "\<forall>t\<in>set (languages stats_one). size_key (snd t) \<noteq> None \<and>
             CHR 0x5C \<notin> set (fst t) \<and> CHR 0x5C \<notin> set (resolve_color (snd t))"
    by (simp add: stats_one_def data_bare_def resolve_color_def)
  have o: "\<exists>w1. generate_output_folder world_badges = (Inr (), w1) \<and>
             fst (write_text ''generated'' ''generated/languages.svg'' [] w1) = Inr ()"
    using generate_output_folder_world_badges
      write_languages_world_badges [of "[]" "[''Directory already exists: generated'']"]
    by simp
  from t r k o have ok: "fst (generate_languages stats_one world_badges) = Inr ()"
    by blast
  from t have same: "generate_languages stats_one world_badges =
     generate_languages (with_default_props stats_one) world_badges"
    by blast
  have f: "nodes (snd (generate_languages stats_one world_badges))
             ''generated/languages.svg'' =
     Some (File
      (''<svg><span style=\"background-color: #000000;width: 0.000%;\" '' @
       ''class=\"progress-item\"></span><ul>'' @
       ''\<newline><li style=\"animation-delay: 0ms;\">\<newline>'' @
       ''<svg xmlns=\"http://www.w3.org/2000/svg\" class=\"octicon\" style=\"fill:#000000;\"\<newline>'' @
       ''viewBox=\"0 0 16 16\" version=\"1.1\" width=\"16\" height=\"16\"><path\<newline>'' @
       ''fill-rule=\"evenodd\" d=\"M8 4a4 4 0 100 8 4 4 0 000-8z\"></path></svg>\<newline>'' @
       ''<span class=\"lang\">Go</span>\<newline>'' @
       ''<span class=\"percent\">0.00%</span>\<newline>'' @
       ''</li>\<newline>\<newline></ul></svg>'') 420)"
    unfolding generate_languages_badges_one by simp
  from e c same ok f show ?thesis
    by (intro conjI)
qed

text \<open>
  The claim as written fails where another entry has no size: the entry \<^verbatim>\<open>C\<close> has a
  size and no \<^verbatim>\<open>prop\<close>, yet \<^verbatim>\<open>generate_languages\<close> raises \<^verbatim>\<open>TypeError\<close> in the sort and
  renders nothing.
\<close>

theorem missing_prop_type_error_counterexample:
  "(''C'', \<lparr>size_key = Some 100, color_key = None, prop_key = None\<rparr>)
     \<in> set (languages stats_no_size) \<and>
   prop_key \<lparr>size_key = Some 100, color_key = None, prop_key = None\<rparr> = None \<and>
   generate_languages stats_no_size world_ready = (Inl TypeError, world_ready)"
proof -
  have l: "2 \<le> length (languages stats_no_size)"
    by (simp add: stats_no_size_def)
  have m: "\<exists>t\<in>set (languages stats_no_size). size_key (snd t) = None"
    by (simp add: stats_no_size_def)
  from generate_languages_type_error [OF l m read_text_world_ready] show ?thesis
    by (simp add: stats_no_size_def)
qed

section \<open>C6: a language without \<^verbatim>\<open>color\<close>\<close>

text \<open>
  C6 (as the code has it). For a language entry of the snapshot whose data has no
  \<^verbatim>\<open>color\<close> key, or whose colour is null, \<^verbatim>\<open>generate_languages\<close> behaves exactly as on
  the snapshot in which the colour \<^verbatim>\<open>#000000\<close> is written out: the missing colour is
  never the cause of a failure. Whenever the run completes, the text substituted for
  \<^verbatim>\<open>{{ progress }}\<close> in the written file holds the entry's segment with the background
  \<^verbatim>\<open>#000000\<close>, and the text substituted for \<^verbatim>\<open>{{ lang_list }}\<close> holds the entry's list
  item with the icon fill \<^verbatim>\<open>#000000\<close>. The run completes when the template can be read,
  every entry has a size, no language name and no colour holds a backslash, and the
  output directory and file can be written.
\<close>

theorem missing_color_renders_black:
  assumes "(lang, data) \<in> set (languages s)"
    and "color_key data = None \<or> color_key data = Some None"
  shows "generate_languages s w = generate_languages (with_default_colors s) w \<and>
    (\<forall>w'. generate_languages s w = (Inr (), w') \<longrightarrow>
       (\<exists>tpl progress lang_list p' l' i m.
          read_text ''templates/languages.svg'' w = Inr tpl \<and>
          expand_template ''{{ progress }}'' progress = Inr p' \<and>
          expand_template ''{{ lang_list }}'' lang_list = Inr l' \<and>
          nodes w' ''generated/languages.svg'' =
            Some (File (replace_all ''{{ lang_list }}'' l'
                          (replace_all ''{{ progress }}'' p' tpl)) m) \<and>
          i < length (languages s) \<and>
          sublist
            (''<span style=\"background-color: #000000;width: '' @
             format_fixed 3 (prop_or_default data) @ ''%;\" class=\"progress-item\"></span>'')
            progress \<and>
          sublist
            (''\<newline><li style=\"animation-delay: '' @ py_str_nat (i * 150) @ ''ms;\">\<newline>'' @
             ''<svg xmlns=\"http://www.w3.org/2000/svg\" class=\"octicon\" style=\"fill:#000000;\"\<newline>'' @
             ''viewBox=\"0 0 16 16\" version=\"1.1\" width=\"16\" height=\"16\"><path\<newline>'' @
             ''fill-rule=\"evenodd\" d=\"M8 4a4 4 0 100 8 4 4 0 000-8z\"></path></svg>\<newline>'' @
             ''<span class=\"lang\">'' @ lang @ ''</span>\<newline>'' @
             ''<span class=\"percent\">'' @ format_fixed 2 (prop_or_default data) @
             ''%</span>\<newline>'' @
             ''</li>\<newline>\<newline>'') lang_list)) \<and>
    ((\<exists>tpl. read_text ''templates/languages.svg'' w = Inr tpl) \<and>
     (\<forall>t\<in>set (languages s). size_key (snd t) \<noteq> None \<and> CHR 0x5C \<notin> set (fst t) \<and>
        CHR 0x5C \<notin> set (resolve_color (snd t))) \<and>
     (\<exists>w1. generate_output_folder w = (Inr (), w1) \<and>
        fst (write_text ''generated'' ''generated/languages.svg'' [] w1) = Inr ()) \<longrightarrow>
     fst (generate_languages s w) = Inr ())"
proof (intro conjI allI impI)
  show "generate_languages s w = generate_languages (with_default_colors s) w"
    by (simp add: generate_languages_default_colors)
next
  fix w'
  assume "generate_languages s w = (Inr (), w')"
  from generate_languages_fragments [OF this assms(1)]
  show "\<exists>tpl progress lang_list p' l' i m.
          read_text ''templates/languages.svg'' w = Inr tpl \<and>
          expand_template ''{{ progress }}'' progress = Inr p' \<and>
          expand_template ''{{ lang_list }}'' lang_list = Inr l' \<and>
          nodes w' ''generated/languages.svg'' =
            Some (File (replace_all ''{{ lang_list }}'' l'
                          (replace_all ''{{ progress }}'' p' tpl)) m) \<and>
          i < length (languages s) \<and>
          sublist
            (''<span style=\"background-color: #000000;width: '' @
             format_fixed 3 (prop_or_default data) @ ''%;\" class=\"progress-item\"></span>'')
            progress \<and>
          sublist
            (''\<newline><li style=\"animation-delay: '' @ py_str_nat (i * 150) @ ''ms;\">\<newline>'' @
             ''<svg xmlns=\"http://www.w3.org/2000/svg\" class=\"octicon\" style=\"fill:#000000;\"\<newline>'' @
             ''viewBox=\"0 0 16 16\" version=\"1.1\" width=\"16\" height=\"16\"><path\<newline>'' @
             ''fill-rule=\"evenodd\" d=\"M8 4a4 4 0 100 8 4 4 0 000-8z\"></path></svg>\<newline>'' @
             ''<span class=\"lang\">'' @ lang @ ''</span>\<newline>'' @
             ''<span class=\"percent\">'' @ format_fixed 2 (prop_or_default data) @
             ''%</span>\<newline>'' @
             ''</li>\<newline>\<newline>'') lang_list"
    unfolding resolve_color_missing [OF assms(2)] progress_item_text lang_list_item_text
    by simp
next
  assume a: "(\<exists>tpl. read_text ''templates/languages.svg'' w = Inr tpl) \<and>
     (\<forall>t\<in>set (languages s). size_key (snd t) \<noteq> None \<and> CHR 0x5C \<notin> set (fst t) \<and>
        CHR 0x5C \<notin> set (resolve_color (snd t))) \<and>
     (\<exists>w1. generate_output_folder w = (Inr (), w1) \<and>
        fst (write_text ''generated'' ''generated/languages.svg'' [] w1) = Inr ())"
  then obtain tpl w1 where "read_text ''templates/languages.svg'' w = Inr tpl"
    and "generate_output_folder w = (Inr (), w1)"
    and "fst (write_text ''generated'' ''generated/languages.svg'' [] w1) = Inr ()"
    by blast
  with a show "fst (generate_languages s w) = Inr ()"
    by (intro generate_languages_runs) simp_all
qed

theorem missing_color_renders_black_witness:
  "(''Go'', data_null_color) \<in> set (languages stats_null_one) \<and>
   color_key data_null_color = Some None \<and>
   generate_languages stats_null_one world_badges =
     generate_languages (with_default_colors stats_null_one) world_badges \<and>
   fst (generate_languages stats_null_one world_badges) = Inr () \<and>
   nodes (snd (generate_languages stats_null_one world_badges)) ''generated/languages.svg'' =
     Some (File
      (''<svg><span style=\"background-color: #000000;width: 0.500%;\" '' @
       ''class=\"progress-item\"></span><ul>'' @
       ''\<newline><li style=\"animation-delay: 0ms;\">\<newline>'' @
       ''<svg xmlns=\"http://www.w3.org/2000/svg\" class=\"octicon\" style=\"fill:#000000;\"\<newline>'' @
       ''viewBox=\"0 0 16 16\" version=\"1.1\" width=\"16\" height=\"16\"><path\<newline>'' @
       ''fill-rule=\"evenodd\" d=\"M8 4a4 4 0 100 8 4 4 0 000-8z\"></path></svg>\<newline>'' @
       ''<span class=\"lang\">Go</span>\<newline>'' @
       ''<span class=\"percent\">0.50%</span>\<newline>'' @
       ''</li>\<newline>\<newline></ul></svg>'') 420)"
proof -
  have e: "(''Go'', data_null_color) \<in> set (languages stats_null_one)"
    by (simp add: stats_null_one_def data_null_color_def)
  have c: "color_key data_null_color = Some None"
    by (simp add: data_null_color_def)
  then have c': "color_key data_null_color = None \<or> color_key data_null_color = Some None" ..
  note t = missing_color_renders_black [OF e c', of world_badges]
  have r: "\<exists>tpl. read_text ''templates/languages.svg'' world_badges = Inr tpl"
    using read_languages_world_badges by blast
  have k: "\<forall>t\<in>set (languages stats_null_one). size_key (snd t) \<noteq> None \<and>
             CHR 0x5C \<notin> set (fst t) \<and> CHR 0x5C \<notin> set (resolve_color (snd t))"
    by (simp add: stats_null_one_def data_null_color_def resolve_color_def)
  have o: "\<exists>w1. generate_output_folder world_badges = (Inr (), w1) \<and>
             fst (write_text ''generated'' ''generated/languages.svg'' [] w1) = Inr ()"
    using generate_output_folder_world_badges
      write_languages_world_badges [of "[]" "[''Directory already exists: generated'']"]
    by simp
  from t r k o have ok: "fst (generate_languages stats_null_one world_badges) = Inr ()"
    by blast
  from t have same: "generate_languages stats_null_one world_badges =
     generate_languages (with_default_colors stats_null_one) world_badges"
    by blast
  have f: "nodes (snd (generate_languages stats_null_one world_badges))
             ''generated/languages.svg'' =
     Some (File
      (''<svg><span style=\"background-color: #000000;width: 0.500%;\" '' @
       ''class=\"progress-item\"></span><ul>'' @
       ''\<newline><li style=\"animation-delay: 0ms;\">\<newline>'' @
       ''<svg xmlns=\"http://www.w3.org/2000/svg\" class=\"octicon\" style=\"fill:#000000;\"\<newline>'' @
       ''viewBox=\"0 0 16 16\" version=\"1.1\" width=\"16\" height=\"16\"><path\<newline>'' @
       ''fill-rule=\"evenodd\" d=\"M8 4a4 4 0 100 8 4 4 0 000-8z\"></path></svg>\<newline>'' @
       ''<span class=\"lang\">Go</span>\<newline>'' @
       ''<span class=\"percent\">0.50%</span>\<newline>'' @
       ''</li>\<newline>\<newline></ul></svg>'') 420)"
    unfolding generate_languages_badges_null by simp
  from e c same ok f show ?thesis
    by (intro conjI)
qed

text \<open>
  The claim as written fails where another entry has no size: the entry \<^verbatim>\<open>C\<close> has a
  size and a null colour, yet \<^verbatim>\<open>generate_languages\<close> raises \<^verbatim>\<open>TypeError\<close> in the sort
  and renders nothing.
\<close>

theorem missing_color_type_error_counterexample:
  "(''C'', \<lparr>size_key = Some 100, color_key = Some None, prop_key = Some 60\<rparr>)
     \<in> set (languages stats_null_color) \<and>
   color_key \<lparr>size_key = Some 100, color_key = Some None, prop_key = Some 60\<rparr> = Some None \<and>
   generate_languages stats_null_color world_ready = (Inl TypeError, world_ready)"
proof -
  have l: "2 \<le> length (languages stats_null_color)"
    by (simp add: stats_null_color_def)
  have m: "\<exists>t\<in>set (languages stats_null_color). size_key (snd t) = None"
    by (simp add: stats_null_color_def)
  from generate_languages_type_error [OF l m read_text_world_ready] show ?thesis
    by (simp add: stats_null_color_def)
qed

section \<open>C7: lines changed\<close>

text \<open>
  C7. \<^verbatim>\<open>generate_overview\<close> replaces the placeholder \<^verbatim>\<open>{{ lines_changed }}\<close> by the sum
  of the two components of the snapshot's lines-changed pair, written with thousands
  separators. For every run that completes and every place of the placeholder in the
  template, whatever stands before and after it (other placeholders, braces of style
  rules, further copies of the placeholder): the written file is what the substitutions
  make of the text before, then the formatted sum, then what they make of the text
  after, and it has no \<^verbatim>\<open>{{ lines_changed }}\<close> left.
\<close>

theorem lines_changed_substituted:
  assumes "generate_overview s w = (Inr (), w')"
    and "read_text ''templates/overview.svg'' w = Inr (pre @ ''{{ lines_changed }}'' @ post)"
  shows "\<exists>a b m.
           overview_substitutions s pre = Inr a \<and>
           overview_substitutions s post = Inr b \<and>
           nodes w' ''generated/overview.svg'' =
             Some (File (a @ format_thousands (fst (lines_changed s) + snd (lines_changed s)) @ b)
                     m) \<and>
           \<not> sublist ''{{ lines_changed }}''
               (a @ format_thousands (fst (lines_changed s) + snd (lines_changed s)) @ b)"
proof -
  from generate_overview_written [OF assms(1)] assms(2) obtain out m where
    out: "overview_substitutions s (pre @ ''{{ lines_changed }}'' @ post) = Inr out"
    and written: "nodes w' ''generated/overview.svg'' = Some (File out m)"
    by auto
  from overview_lines_changed_split [OF out] obtain a b where
    ab: "overview_substitutions s pre = Inr a" "overview_substitutions s post = Inr b"
      "out = a @ format_thousands (fst (lines_changed s) + snd (lines_changed s)) @ b"
    by blast
  from overview_numbers_absent(4) [OF out] have "\<not> sublist ''{{ lines_changed }}'' out" .
  with ab written show ?thesis by blast
qed

theorem lines_changed_substituted_witness:
  "read_text ''templates/overview.svg'' world_badges =
     Inr (''<svg><style>text { fill: #333; }</style><text>{{ name }}: {{ stars }} stars, '' @
          ''{{ lines_changed }}'' @ '' lines, {{ repos }} repos</text></svg>'') \<and>
   fst (generate_overview stats_small world_badges) = Inr () \<and>
   nodes (snd (generate_overview stats_small world_badges)) ''generated/overview.svg'' =
     Some (File (''<svg><style>text { fill: #333; }</style><text>octocat: 1,200 stars, '' @
                 ''1,234,567'' @ '' lines, 2 repos</text></svg>'') 420) \<and>
   \<not> sublist ''{{ lines_changed }}''
       (''<svg><style>text { fill: #333; }</style><text>octocat: 1,200 stars, '' @
        ''1,234,567'' @ '' lines, 2 repos</text></svg>'')"
proof -
  note run = generate_overview_world_badges
  from lines_changed_substituted [OF run read_text_world_badges] obtain a b m where
    ab: "overview_substitutions stats_small
           ''<svg><style>text { fill: #333; }</style><text>{{ name }}: {{ stars }} stars, '' =
         Inr a"
      "overview_substitutions stats_small '' lines, {{ repos }} repos</text></svg>'' = Inr b"
    and absent: "\<not> sublist ''{{ lines_changed }}''
       (a @ format_thousands (fst (lines_changed stats_small) + snd (lines_changed stats_small))
          @ b)"
    by blast
  from ab have a: "a = ''<svg><style>text { fill: #333; }</style><text>octocat: 1,200 stars, ''"
    and b: "b = '' lines, 2 repos</text></svg>''"
    by (simp_all only: overview_substitutions_stats_small sum.inject)
  have n: "format_thousands (fst (lines_changed stats_small) + snd (lines_changed stats_small)) =
             ''1,234,567''"
    by (simp add: stats_small_def format_thousands_example)
  have f: "fst (generate_overview stats_small world_badges) = Inr ()"
    and g: "nodes (snd (generate_overview stats_small world_badges)) ''generated/overview.svg'' =
     Some (File (''<svg><style>text { fill: #333; }</style><text>octocat: 1,200 stars, '' @
                 ''1,234,567'' @ '' lines, 2 repos</text></svg>'') 420)"
    unfolding run by simp_all
  from absent show ?thesis
    unfolding a b n using f g read_text_world_badges by (intro conjI)
qed

section \<open>C4: the order of the languages\<close>



section \<open>C9: a language without \<^verbatim>\<open>size\<close>\<close>

text \<open>
  C9. If the mapping has at least two entries and one of them has no \<^verbatim>\<open>size\<close>, the
  sort raises \<^verbatim>\<open>TypeError\<close>, and so does \<^verbatim>\<open>generate_languages\<close> once it has read its
  template; nothing is written.
\<close>

theorem missing_size_raises:
  assumes "2 \<le> length (languages s)"
    and "\<exists>t\<in>set (languages s). size_key (snd t) = None"
    and "read_text ''templates/languages.svg'' w = Inr output"
  shows "py_sorted_reverse (\<lambda>t. size_key (snd t)) (languages s) = Inl TypeError \<and>
         generate_languages s w = (Inl TypeError, w)"
  using py_sorted_reverse_missing_key [OF assms(1,2)] assms(3)
  by (simp add: generate_languages_def languages_substitutions_def)

theorem missing_size_raises_witness:
  "2 \<le> length (languages stats_no_size) \<and>
   size_key (snd (''Go'', \<lparr>size_key = None, color_key = None, prop_key = None\<rparr>)) = None \<and>
   generate_languages stats_no_size world_ready = (Inl TypeError, world_ready)"
proof -
  have l: "2 \<le> length (languages stats_no_size)"
    by (simp add: stats_no_size_def)
  have m: "\<exists>t\<in>set (languages stats_no_size). size_key (snd t) = None"
    by (simp add: stats_no_size_def)
  from missing_size_raises [OF l m read_text_world_ready] l show ?thesis
    by simp
qed

section \<open>C3: no placeholder is left\<close>




end
